theory Spec2Isabelle
  imports Main "HOL-Library.Sublist"
begin

text \<open>
  A model of the package \<open>bingclient\<close> of bingWallpaper: the client that asks the Bing
  image archive for metadata and images, the storage that names and writes the files,
  and the downloader that runs the two over one day or several. Pure code is a HOL
  function of the same name; code that talks to the network or the file system takes
  the world and returns it with its result.
\<close>

section \<open>Go strings and the library functions the package calls\<close>

text \<open>
  A Go string is a sequence of bytes; \<^typ>\<open>string\<close> (a list of 8-bit characters) is the
  same thing. Text outside ASCII appears as its UTF-8 encoding, so the full-width comma
  U+FF0C that the filename code splits on is the three bytes EF BC 8C.
\<close>

type_synonym bytes = string

definition fullwidth_comma :: string where
  "fullwidth_comma = [CHR 0xEF, CHR 0xBC, CHR 0x8C]"

subsection \<open>Package strings\<close>

text \<open>\<open>strings.Index\<close>: the byte offset of the first occurrence of \<open>sep\<close>; Go's -1 is \<open>None\<close>.\<close>

fun strings_Index :: "string \<Rightarrow> string \<Rightarrow> nat option" where
  "strings_Index [] sep = (if sep = [] then Some 0 else None)"
| "strings_Index (c # cs) sep =
     (if prefix sep (c # cs) then Some 0 else map_option Suc (strings_Index cs sep))"

lemma strings_Index_bound: "strings_Index s sep = Some j \<Longrightarrow> j + length sep \<le> length s"
proof (induction s arbitrary: j)
  case Nil
  then show ?case by (simp split: if_splits)
next
  case (Cons c cs)
  show ?case
  proof (cases "prefix sep (c # cs)")
    case True
    with Cons.prems prefix_length_le [of sep "c # cs"] show ?thesis by simp
  next
    case False
    with Cons.prems obtain k where "strings_Index cs sep = Some k" "j = Suc k"
      by auto
    with Cons.IH show ?thesis by fastforce
  qed
qed

text \<open>
  \<open>strings.Split(s, sep)\<close> for a non-empty separator: cut at every non-overlapping
  occurrence, left to right. Both call sites pass a literal separator; for the empty
  separator Go splits after each UTF-8 sequence, which is outside this model (the
  equation then returns the text uncut).
\<close>

function strings_Split :: "string \<Rightarrow> string \<Rightarrow> string list" where
  "strings_Split s sep =
     (if sep = [] then [s]
      else case strings_Index s sep of
             None \<Rightarrow> [s]
           | Some m \<Rightarrow> take m s # strings_Split (drop (m + length sep) s) sep)"
  by pat_completeness auto
termination
proof (relation "measure (\<lambda>(s, sep). length s)")
  show "wf (measure (\<lambda>(s, sep). length s))" by simp
next
  fix s sep :: string and m
  assume "sep \<noteq> []" and "strings_Index s sep = Some m"
  then have "m + length sep \<le> length s" and "0 < length sep"
    by (auto dest: strings_Index_bound)
  then show "((drop (m + length sep) s, sep), (s, sep)) \<in> measure (\<lambda>(s, sep). length s)"
    by (cases sep) auto
qed

declare strings_Split.simps [simp del]

text \<open>
  \<open>strings.Replace(s, old, new, n)\<close> for a non-empty \<open>old\<close>: the first \<open>n\<close>
  non-overlapping occurrences are replaced, all of them when \<open>n < 0\<close>. Every call site
  passes a literal non-empty \<open>old\<close>; Go's treatment of the empty \<open>old\<close> (insertion at
  every rune boundary) is outside this model. \<open>strings.ReplaceAll\<close> is, as in Go,
  \<open>Replace\<close> with \<open>n = -1\<close>.
\<close>

function strings_Replace :: "string \<Rightarrow> string \<Rightarrow> string \<Rightarrow> int \<Rightarrow> string" where
  "strings_Replace s old new n =
     (if old = new \<or> n = 0 \<or> old = [] then s
      else case strings_Index s old of
             None \<Rightarrow> s
           | Some j \<Rightarrow> take j s @ new @ strings_Replace (drop (j + length old) s) old new (n - 1))"
  by pat_completeness auto
termination
proof (relation "measure (\<lambda>(s, old, new, n). length s)")
  show "wf (measure (\<lambda>(s, old, new, n). length s))" by simp
next
  fix s old new :: string and n :: int and j
  assume "\<not> (old = new \<or> n = 0 \<or> old = [])" and "strings_Index s old = Some j"
  then have "j + length old \<le> length s" and "0 < length old"
    by (auto dest: strings_Index_bound)
  then show "((drop (j + length old) s, old, new, n - 1), (s, old, new, n))
      \<in> measure (\<lambda>(s, old, new, n). length s)"
    by (cases old) auto
qed

declare strings_Replace.simps [simp del]

definition strings_ReplaceAll :: "string \<Rightarrow> string \<Rightarrow> string \<Rightarrow> string" where
  "strings_ReplaceAll s old new = strings_Replace s old new (- 1)"

text \<open>
  \<open>strings.TrimSpace\<close> removes leading and trailing white space as Unicode defines it
  (\<open>unicode.IsSpace\<close>). On bytes, a white-space rune is one of the following UTF-8
  sequences: the six ASCII ones, U+0085, U+00A0, U+1680, U+2000 to U+200A, U+2028,
  U+2029, U+202F, U+205F and U+3000. A byte sequence that is not valid UTF-8 decodes to
  U+FFFD, which is not white space, so it stops the trimming.
\<close>

definition unicode_spaces :: "string list" where
  "unicode_spaces =
     [[CHR 0x09], [CHR 0x0A], [CHR 0x0B], [CHR 0x0C], [CHR 0x0D], [CHR 0x20],
      [CHR 0xC2, CHR 0x85], [CHR 0xC2, CHR 0xA0],
      [CHR 0xE1, CHR 0x9A, CHR 0x80],
      [CHR 0xE2, CHR 0x80, CHR 0x80], [CHR 0xE2, CHR 0x80, CHR 0x81],
      [CHR 0xE2, CHR 0x80, CHR 0x82], [CHR 0xE2, CHR 0x80, CHR 0x83],
      [CHR 0xE2, CHR 0x80, CHR 0x84], [CHR 0xE2, CHR 0x80, CHR 0x85],
      [CHR 0xE2, CHR 0x80, CHR 0x86], [CHR 0xE2, CHR 0x80, CHR 0x87],
      [CHR 0xE2, CHR 0x80, CHR 0x88], [CHR 0xE2, CHR 0x80, CHR 0x89],
      [CHR 0xE2, CHR 0x80, CHR 0x8A],
      [CHR 0xE2, CHR 0x80, CHR 0xA8], [CHR 0xE2, CHR 0x80, CHR 0xA9],
      [CHR 0xE2, CHR 0x80, CHR 0xAF], [CHR 0xE2, CHR 0x81, CHR 0x9F],
      [CHR 0xE3, CHR 0x80, CHR 0x80]]"

text \<open>The width in bytes of the white-space rune a string starts (ends) with; 0 if none.\<close>

definition leading_space :: "string \<Rightarrow> nat" where
  "leading_space s =
     (case filter (\<lambda>e. prefix e s) unicode_spaces of [] \<Rightarrow> 0 | e # _ \<Rightarrow> length e)"

definition trailing_space :: "string \<Rightarrow> nat" where
  "trailing_space s =
     (case filter (\<lambda>e. suffix e s) unicode_spaces of [] \<Rightarrow> 0 | e # _ \<Rightarrow> length e)"

lemma unicode_spaces_nonempty: "e \<in> set unicode_spaces \<Longrightarrow> e \<noteq> []"
  by (auto simp: unicode_spaces_def)

lemma leading_space_pos: "0 < leading_space s \<Longrightarrow> s \<noteq> []"
proof (cases "filter (\<lambda>e. prefix e s) unicode_spaces")
  case Nil
  assume "0 < leading_space s"
  with Nil show ?thesis by (simp add: leading_space_def)
next
  case (Cons e es)
  then have "e \<in> set (filter (\<lambda>e. prefix e s) unicode_spaces)" by simp
  then have "e \<noteq> []" and "prefix e s" by (auto dest: unicode_spaces_nonempty)
  then show ?thesis by auto
qed

lemma trailing_space_pos: "0 < trailing_space s \<Longrightarrow> s \<noteq> []"
proof (cases "filter (\<lambda>e. suffix e s) unicode_spaces")
  case Nil
  assume "0 < trailing_space s"
  with Nil show ?thesis by (simp add: trailing_space_def)
next
  case (Cons e es)
  then have "e \<in> set (filter (\<lambda>e. suffix e s) unicode_spaces)" by simp
  then have "e \<noteq> []" and "suffix e s" by (auto dest: unicode_spaces_nonempty)
  then show ?thesis by auto
qed

function trim_left :: "string \<Rightarrow> string" where
  "trim_left s = (if leading_space s = 0 then s else trim_left (drop (leading_space s) s))"
  by pat_completeness auto
termination
proof (relation "measure length")
  show "wf (measure (length :: string \<Rightarrow> nat))" by simp
next
  fix s :: string
  assume "leading_space s \<noteq> 0"
  then have "0 < leading_space s" and "0 < length s"
    by (auto dest: leading_space_pos)
  then show "(drop (leading_space s) s, s) \<in> measure length"
    by (simp del: length_greater_0_conv)
qed

function trim_right :: "string \<Rightarrow> string" where
  "trim_right s =
     (if trailing_space s = 0 then s else trim_right (take (length s - trailing_space s) s))"
  by pat_completeness auto
termination
proof (relation "measure length")
  show "wf (measure (length :: string \<Rightarrow> nat))" by simp
next
  fix s :: string
  assume "trailing_space s \<noteq> 0"
  then have "0 < trailing_space s" and "0 < length s"
    by (auto dest: trailing_space_pos)
  then show "(take (length s - trailing_space s) s, s) \<in> measure length"
    by (simp del: length_greater_0_conv)
qed

declare trim_left.simps [simp del] trim_right.simps [simp del]

definition strings_TrimSpace :: "string \<Rightarrow> string" where
  "strings_TrimSpace s = trim_right (trim_left s)"

text \<open>\<open>strings.Join\<close>: the elements with \<open>sep\<close> between them.\<close>

fun strings_Join :: "string list \<Rightarrow> string \<Rightarrow> string" where
  "strings_Join [] sep = []"
| "strings_Join [e] sep = e"
| "strings_Join (e # es) sep = e @ sep @ strings_Join es sep"

subsection \<open>Package path/filepath, on a Unix build\<close>

text \<open>
  The separator is \<open>os.PathSeparator\<close> of the linux and darwin builds. \<open>filepath.Clean\<close>
  reads the path from left to right and writes the cleaned path into a buffer:
  \<open>out\<close> is the buffer written so far and \<open>dotdot\<close> the buffer index below which a
  \<open>..\<close> element may not remove anything.
\<close>

definition Separator :: char where
  "Separator = CHR ''/''"

function backtrack :: "string \<Rightarrow> nat \<Rightarrow> nat \<Rightarrow> nat" where
  "backtrack out dotdot w =
     (if w > dotdot \<and> out ! w \<noteq> Separator then backtrack out dotdot (w - 1) else w)"
  by pat_completeness auto
termination
  by (relation "measure (\<lambda>(out, dotdot, w). w)") auto

declare backtrack.simps [simp del]

function Clean_loop :: "bool \<Rightarrow> string \<Rightarrow> string \<Rightarrow> nat \<Rightarrow> string" where
  "Clean_loop rooted [] out dotdot = out"
| "Clean_loop rooted (c # rest) out dotdot =
     (if c = Separator then Clean_loop rooted rest out dotdot
      else if c = CHR ''.'' \<and> (case rest of [] \<Rightarrow> True | c1 # _ \<Rightarrow> c1 = Separator)
        then Clean_loop rooted rest out dotdot
      else if c = CHR ''.'' \<and>
              (case rest of
                 [] \<Rightarrow> False
               | c1 # rest2 \<Rightarrow>
                   c1 = CHR ''.'' \<and> (case rest2 of [] \<Rightarrow> True | c2 # _ \<Rightarrow> c2 = Separator))
        then
          (if length out > dotdot
             then Clean_loop rooted (drop 1 rest)
                    (take (backtrack out dotdot (length out - 1)) out) dotdot
           else if \<not> rooted
             then Clean_loop rooted (drop 1 rest)
                    ((if out \<noteq> [] then out @ [Separator] else out) @ ''..'')
                    (length ((if out \<noteq> [] then out @ [Separator] else out) @ ''..''))
           else Clean_loop rooted (drop 1 rest) out dotdot)
      else Clean_loop rooted (dropWhile (\<lambda>x. x \<noteq> Separator) rest)
             ((if rooted \<and> length out \<noteq> 1 \<or> \<not> rooted \<and> length out \<noteq> 0
                 then out @ [Separator] else out)
              @ c # takeWhile (\<lambda>x. x \<noteq> Separator) rest)
             dotdot)"
  by pat_completeness auto
termination
  by (relation "measure (\<lambda>(rooted, path, out, dotdot). length path)")
     (auto simp: le_imp_less_Suc length_dropWhile_le)

declare Clean_loop.simps(2) [simp del]

definition filepath_Clean :: "string \<Rightarrow> string" where
  "filepath_Clean path =
     (case path of
        [] \<Rightarrow> ''.''
      | c # rest \<Rightarrow>
          (let rooted = (c = Separator);
               out = (if rooted then Clean_loop rooted rest [Separator] 1
                      else Clean_loop rooted path [] 0)
           in if out = [] then ''.'' else out))"

text \<open>\<open>filepath.Join\<close>: empty elements before the first non-empty one are skipped.\<close>

fun filepath_Join :: "string list \<Rightarrow> string" where
  "filepath_Join [] = []"
| "filepath_Join (e # es) =
     (if e \<noteq> [] then filepath_Clean (strings_Join (e # es) [Separator])
      else filepath_Join es)"

text \<open>\<open>filepath.Dir\<close>: everything up to the last separator, cleaned.\<close>

definition filepath_Dir :: "string \<Rightarrow> string" where
  "filepath_Dir path =
     filepath_Clean (rev (dropWhile (\<lambda>x. x \<noteq> Separator) (rev path)))"

subsection \<open>Package fmt\<close>

text \<open>
  Go's \<open>int\<close> is a 64-bit machine integer. The package never computes with the integers
  it is given beyond counting a loop index up to a bound of the same type, so no
  operation can wrap; they are modelled as \<^typ>\<open>int\<close>. \<open>%d\<close> prints the decimal
  digits, with a minus sign for a negative number.
\<close>

fun digits :: "nat \<Rightarrow> string" where
  "digits n =
     (if n < 10 then [char_of (48 + n)] else digits (n div 10) @ [char_of (48 + n mod 10)])"

declare digits.simps [simp del]

definition Itoa :: "int \<Rightarrow> string" where
  "Itoa i = (if i < 0 then CHR ''-'' # digits (nat (- i)) else digits (nat i))"

text \<open>
  \<open>fmt.Sprintf\<close> for the part of the format language the package uses to build strings
  that matter: the verbs \<open>%s\<close>, \<open>%d\<close>, \<open>%v\<close> and \<open>%%\<close>, without flags, width or
  precision, on string and int operands. A verb that does not fit its operand, a
  missing operand and surplus operands print Go's error markers.
\<close>

datatype fmt_arg = ArgString string | ArgInt int

fun fmt_type :: "fmt_arg \<Rightarrow> string" where
  "fmt_type (ArgString s) = ''string''"
| "fmt_type (ArgInt n) = ''int''"

fun fmt_value :: "fmt_arg \<Rightarrow> string" where
  "fmt_value (ArgString s) = s"
| "fmt_value (ArgInt n) = Itoa n"

definition bad_verb :: "char \<Rightarrow> fmt_arg \<Rightarrow> string" where
  "bad_verb v a = ''%!'' @ [v] @ ''('' @ fmt_type a @ ''='' @ fmt_value a @ '')''"

fun fmt_verb :: "char \<Rightarrow> fmt_arg \<Rightarrow> string" where
  "fmt_verb v (ArgString s) =
     (if v = CHR ''s'' \<or> v = CHR ''v'' then s else bad_verb v (ArgString s))"
| "fmt_verb v (ArgInt n) =
     (if v = CHR ''d'' \<or> v = CHR ''v'' then Itoa n else bad_verb v (ArgInt n))"

fun fmt_Sprintf :: "string \<Rightarrow> fmt_arg list \<Rightarrow> string" where
  "fmt_Sprintf [] [] = []"
| "fmt_Sprintf [] (a # as) =
     ''%!(EXTRA '' @ strings_Join (map (\<lambda>x. fmt_type x @ ''='' @ fmt_value x) (a # as)) '', ''
       @ '')''"
| "fmt_Sprintf [c] as =
     (if c = CHR ''%'' then ''%!(NOVERB)'' @ fmt_Sprintf [] as else c # fmt_Sprintf [] as)"
| "fmt_Sprintf (c # v # fs) as =
     (if c \<noteq> CHR ''%'' then c # fmt_Sprintf (v # fs) as
      else if v = CHR ''%'' then CHR ''%'' # fmt_Sprintf fs as
      else case as of
             [] \<Rightarrow> ''%!'' @ [v] @ ''(MISSING)'' @ fmt_Sprintf fs []
           | a # as' \<Rightarrow> fmt_verb v a @ fmt_Sprintf fs as')"

section \<open>The metadata record (client.go)\<close>

record ImageData =
  Startdate :: string
  Fullstartdate :: string
  Enddate :: string
  URL :: string
  Urlbase :: string
  Copyright :: string
  Copyrightlink :: string
  Title :: string
  Quiz :: string
  Wp :: bool
  Hsh :: string
  Drk :: int
  Top :: int
  Bot :: int
  Hs :: "string list"

section \<open>Filename generation (storage.go, utils.go)\<close>

text \<open>
  The replacement block of \<open>DefaultFilenameGenerator.GenerateImageFilename\<close>: ten calls
  of \<open>strings.ReplaceAll\<close>, in the order of the source.
\<close>

definition replaceSpecialChars :: "string \<Rightarrow> string" where
  "replaceSpecialChars description0 =
     (let description = strings_ReplaceAll description0 '' '' ''_'';
          description = strings_ReplaceAll description ''/'' ''-'';
          description = strings_ReplaceAll description [CHR 0x5C] ''-'';
          description = strings_ReplaceAll description '':'' ''-'';
          description = strings_ReplaceAll description ''?'' [];
          description = strings_ReplaceAll description ''*'' [];
          description = strings_ReplaceAll description ''<'' [];
          description = strings_ReplaceAll description ''>'' [];
          description = strings_ReplaceAll description ''|'' ''-'';
          description = strings_ReplaceAll description [CHR 0x22] [CHR 0x27]
      in description)"

text \<open>
  The value of the local variable \<open>description\<close> of \<open>GenerateImageFilename\<close> when the
  file name is formatted: the title, or else the copyright text cut at the first
  full-width comma and then at the first opening parenthesis; trimmed; special
  characters replaced. \<open>strings.Split\<close> returns at least one element for a non-empty
  separator, so the index 0 is always in range (lemma \<open>strings_Split_not_Nil\<close>).
\<close>

definition GenerateImageFilename_description :: "ImageData \<Rightarrow> string" where
  "GenerateImageFilename_description imageData =
     (let description = Title imageData;
          description =
            (if description = []
             then (let description = strings_Split (Copyright imageData) fullwidth_comma ! 0;
                       description = strings_Split description ''('' ! 0
                   in description)
             else description);
          description = strings_TrimSpace description
      in replaceSpecialChars description)"

definition DefaultFilenameGenerator_GenerateImageFilename :: "ImageData \<Rightarrow> string \<Rightarrow> string" where
  "DefaultFilenameGenerator_GenerateImageFilename imageData basePath =
     (let description = GenerateImageFilename_description imageData;
          filename = fmt_Sprintf ''%s_%s.jpg''
                       [ArgString (Startdate imageData), ArgString description]
      in filepath_Join [basePath, filename])"

definition DefaultFilenameGenerator_GenerateJsonFilename :: "ImageData \<Rightarrow> string \<Rightarrow> string" where
  "DefaultFilenameGenerator_GenerateJsonFilename imageData basePath =
     (let filename = fmt_Sprintf ''bing_data_%s.json'' [ArgString (Startdate imageData)]
      in filepath_Join [basePath, filename])"

text \<open>\<open>ExtractWallpaperDescription\<close> of utils.go, written out as the source has it.\<close>

definition ExtractWallpaperDescription :: "ImageData \<Rightarrow> string" where
  "ExtractWallpaperDescription imageData =
     (let description = Title imageData;
          description =
            (if description = []
             then (let description = strings_Split (Copyright imageData) fullwidth_comma ! 0;
                       description = strings_Split description ''('' ! 0
                   in description)
             else description);
          description = strings_TrimSpace description;
          description = strings_ReplaceAll description '' '' ''_'';
          description = strings_ReplaceAll description ''/'' ''-'';
          description = strings_ReplaceAll description [CHR 0x5C] ''-'';
          description = strings_ReplaceAll description '':'' ''-'';
          description = strings_ReplaceAll description ''?'' [];
          description = strings_ReplaceAll description ''*'' [];
          description = strings_ReplaceAll description ''<'' [];
          description = strings_ReplaceAll description ''>'' [];
          description = strings_ReplaceAll description ''|'' ''-'';
          description = strings_ReplaceAll description [CHR 0x22] [CHR 0x27]
      in description)"

section \<open>Errors and the world outside the program\<close>

text \<open>
  A Go \<open>error\<close> is \<open>nil\<close> or a value with a message; \<open>nil\<close> is \<open>None\<close> of
  \<^typ>\<open>'a option\<close>. Every error the package makes itself is a \<open>fmt.Errorf\<close> with a fixed
  text, most of them around the error that caused it; the datatype has one constructor
  for each such text. \<open>Opaque\<close> is an error that comes from outside the package (the
  HTTP transport, the operating system, the JSON decoder).
\<close>

datatype error =
    Opaque string
  | CreateRequestFailed error    \<comment> \<open>\<open>sendRequest\<close>: \<open>http.NewRequest\<close> failed\<close>
  | RequestFailed error          \<comment> \<open>\<open>sendRequest\<close>: \<open>httpClient.Do\<close> failed\<close>
  | HTTPStatusError int          \<comment> \<open>\<open>sendRequest\<close>: status code other than 200\<close>
  | ReadResponseFailed error     \<comment> \<open>\<open>sendRequest\<close>: \<open>io.ReadAll\<close> failed\<close>
  | JSONParseFailed error        \<comment> \<open>\<open>parseImageResponse\<close>: \<open>json.Unmarshal\<close> failed\<close>
  | NoImageData                  \<comment> \<open>no image in the response\<close>
  | DaysOutOfRange int           \<comment> \<open>days must be between 1 and 16\<close>
  | MkdirFailed error            \<comment> \<open>\<open>FileStorage.Save\<close>: \<open>os.MkdirAll\<close> failed\<close>
  | WriteFileFailed error        \<comment> \<open>\<open>FileStorage.Save\<close>: \<open>os.WriteFile\<close> failed\<close>
  | FetchImageDataFailed error   \<comment> \<open>\<open>FetchAndSaveWallpaper\<close>: metadata fetch failed\<close>
  | ImageDownloadFailed error    \<comment> \<open>\<open>SaveWallpaper\<close>: image download failed\<close>
  | ImageSaveFailed error        \<comment> \<open>\<open>SaveWallpaper\<close>: image save failed\<close>
  | DayFailed int error          \<comment> \<open>\<open>FetchAndSaveWallpapers\<close>: day i failed\<close>
  | WallpaperFailed int error    \<comment> \<open>\<open>SaveWallpapers\<close>: wallpaper i failed\<close>
  | PartialFailure error         \<comment> \<open>some wallpapers failed; carries the last error\<close>

text \<open>
  The program acts on the world through three calls: \<open>httpClient.Do\<close>, \<open>os.MkdirAll\<close>
  and \<open>os.WriteFile\<close>. The world records every such call in its history, oldest first,
  and decides the outcome of a call from the history so far and the call's arguments,
  so a server may answer the same request differently each time. \<open>http.NewRequest\<close>
  and \<open>json.Unmarshal\<close> are library functions that touch nothing; they are taken as
  given. \<open>http.NewRequest\<close> parses the URL string it is given, and the request it
  returns carries the URL as \<open>net/url\<close> writes it again (a space becomes \<open>%20\<close>): that
  URL, not the string the program passed, is what the transport is handed and what the
  history records. Log output and the one-second pause between two days are not
  modelled.
\<close>

datatype event =
    HttpDo string string string   \<comment> \<open>method, URL of the request, User-Agent header\<close>
  | MkdirAll string nat           \<comment> \<open>directory, permission\<close>
  | WriteFile string bytes nat    \<comment> \<open>path, data, permission\<close>

record Tooltips =
  Loading :: string
  Previous :: string
  Next :: string
  Walle :: string
  Walls :: string

record HPImageArchiveResponse =
  Images :: "ImageData list"
  Tooltips :: Tooltips

record world =
  history :: "event list"
  http_NewRequest :: "string \<Rightarrow> string \<Rightarrow> error + string"
    \<comment> \<open>method, URL string; the error, or the URL of the request made\<close>
  httpClient_Do :: "event list \<Rightarrow> int \<Rightarrow> string \<Rightarrow> string \<Rightarrow> string
                    \<Rightarrow> error + (int \<times> (error + bytes))"
    \<comment> \<open>history, timeout, method, URL of the request, User-Agent; the response is its
        status code and what reading its body gives\<close>
  json_Unmarshal :: "bytes \<Rightarrow> error + HPImageArchiveResponse"
  os_MkdirAll :: "event list \<Rightarrow> string \<Rightarrow> nat \<Rightarrow> error option"
  os_WriteFile :: "event list \<Rightarrow> string \<Rightarrow> bytes \<Rightarrow> nat \<Rightarrow> error option"

definition record_event :: "event \<Rightarrow> world \<Rightarrow> world" where
  "record_event e w = w\<lparr>history := history w @ [e]\<rparr>"

section \<open>The client (client.go)\<close>

record Client =
  baseURL :: string
  timeout :: int       \<comment> \<open>nanoseconds, as \<open>time.Duration\<close>\<close>
  userAgent :: string
  client_locale :: string   \<comment> \<open>the field \<open>locale\<close>, a reserved word here\<close>
  highQuality :: bool

definition NewClient :: Client where
  "NewClient =
     \<lparr>baseURL = ''https://www.bing.com/HPImageArchive.aspx'',
      timeout = 10 * 1000000000,
      userAgent = ''Mozilla/5.0 (Windows NT 10.0; Win64; x64) AppleWebKit/537.36 (KHTML, like Gecko) Chrome/91.0.4472.124 Safari/537.36'',
      client_locale = ''zh-CN'',
      highQuality = True\<rparr>"

definition sendRequest :: "Client \<Rightarrow> string \<Rightarrow> string \<Rightarrow> world \<Rightarrow> (error + bytes) \<times> world" where
  "sendRequest c method url w =
     (case http_NewRequest w method url of
        Inl err \<Rightarrow> (Inl (CreateRequestFailed err), w)
      | Inr reqURL \<Rightarrow>
          (let w' = record_event (HttpDo method reqURL (userAgent c)) w in
           case httpClient_Do w (history w) (timeout c) method reqURL (userAgent c) of
             Inl err \<Rightarrow> (Inl (RequestFailed err), w')
           | Inr (status, body) \<Rightarrow>
               if status \<noteq> 200 then (Inl (HTTPStatusError status), w')
               else (case body of
                       Inl err \<Rightarrow> (Inl (ReadResponseFailed err), w')
                     | Inr b \<Rightarrow> (Inr b, w'))))"

definition GetBingImageURL :: "Client \<Rightarrow> ImageData \<Rightarrow> string" where
  "GetBingImageURL c imageData =
     (let imageURL = fmt_Sprintf ''https://www.bing.com%s'' [ArgString (URL imageData)];
          imageURL = (if highQuality c then strings_Replace imageURL ''1920x1080'' ''UHD'' 1
                      else imageURL)
      in imageURL)"

definition GetBingApiURL :: "Client \<Rightarrow> int \<Rightarrow> int \<Rightarrow> string" where
  "GetBingApiURL c daysAgo count =
     fmt_Sprintf ''%s?format=js&n=%d&idx=%d&mkt=%s''
       [ArgString (baseURL c), ArgInt count, ArgInt daysAgo, ArgString (client_locale c)]"

definition parseImageResponse :: "world \<Rightarrow> bytes \<Rightarrow> error + ImageData list" where
  "parseImageResponse w data =
     (case json_Unmarshal w data of
        Inl err \<Rightarrow> Inl (JSONParseFailed err)
      | Inr archiveResp \<Rightarrow>
          if length (Images archiveResp) = 0 then Inl NoImageData
          else Inr (Images archiveResp))"

definition FetchRawImageData :: "Client \<Rightarrow> ImageData \<Rightarrow> world \<Rightarrow> (error + bytes) \<times> world" where
  "FetchRawImageData c imageData w = sendRequest c ''GET'' (GetBingImageURL c imageData) w"

definition FetchRawJsonData :: "Client \<Rightarrow> string \<Rightarrow> world \<Rightarrow> (error + bytes) \<times> world" where
  "FetchRawJsonData c apiURL w = sendRequest c ''GET'' apiURL w"

definition fetchMultipleImageData ::
  "Client \<Rightarrow> int \<Rightarrow> int \<Rightarrow> world \<Rightarrow> (error + ImageData list) \<times> world" where
  "fetchMultipleImageData c daysAgo count w =
     (let apiURL = GetBingApiURL c daysAgo count in
      case FetchRawJsonData c apiURL w of
        (Inl err, w') \<Rightarrow> (Inl err, w')
      | (Inr body, w') \<Rightarrow>
          (case parseImageResponse w' body of
             Inl err \<Rightarrow> (Inl err, w')
           | Inr images \<Rightarrow> (Inr images, w')))"

definition FetchImageData :: "Client \<Rightarrow> int \<Rightarrow> world \<Rightarrow> (error + ImageData) \<times> world" where
  "FetchImageData c daysAgo w =
     (case fetchMultipleImageData c daysAgo 1 w of
        (Inl err, w') \<Rightarrow> (Inl err, w')
      | (Inr images, w') \<Rightarrow>
          if length images = 0 then (Inl NoImageData, w')
          else (Inr (images ! 0), w'))"

definition FetchMultipleImageData ::
  "Client \<Rightarrow> int \<Rightarrow> world \<Rightarrow> (error + ImageData list) \<times> world" where
  "FetchMultipleImageData c days w =
     (if days \<le> 0 \<or> days > 16 then (Inl (DaysOutOfRange days), w)
      else fetchMultipleImageData c 0 days w)"

section \<open>Storage (storage.go)\<close>

record FileStorage =
  MkdirPermission :: nat
  FilePermission :: nat

definition NewFileStorage :: FileStorage where
  "NewFileStorage = \<lparr>MkdirPermission = 493, FilePermission = 420\<rparr>"   \<comment> \<open>0755 and 0644\<close>

definition FileStorage_Save :: "FileStorage \<Rightarrow> bytes \<Rightarrow> string \<Rightarrow> world \<Rightarrow> error option \<times> world" where
  "FileStorage_Save fs data path w =
     (let dir = filepath_Dir path;
          w1 = record_event (MkdirAll dir (MkdirPermission fs)) w in
      case os_MkdirAll w (history w) dir (MkdirPermission fs) of
        Some err \<Rightarrow> (Some (MkdirFailed err), w1)
      | None \<Rightarrow>
          (let w2 = record_event (WriteFile path data (FilePermission fs)) w1 in
           case os_WriteFile w1 (history w1) path data (FilePermission fs) of
             Some err \<Rightarrow> (Some (WriteFileFailed err), w2)
           | None \<Rightarrow> (None, w2)))"

text \<open>
  The interfaces \<open>Storage\<close> and \<open>ImageFilenameGenerator\<close> are records of their methods,
  so that any implementation can be put in. Of \<open>Storage\<close> only \<open>Save\<close> is called by the
  code modelled here.
\<close>

record Storage =
  Save :: "bytes \<Rightarrow> string \<Rightarrow> world \<Rightarrow> error option \<times> world"

record ImageFilenameGenerator =
  GenerateImageFilename :: "ImageData \<Rightarrow> string \<Rightarrow> string"
  GenerateJsonFilename :: "ImageData \<Rightarrow> string \<Rightarrow> string"

definition NewDefaultFilenameGenerator :: ImageFilenameGenerator where
  "NewDefaultFilenameGenerator =
     \<lparr>GenerateImageFilename = DefaultFilenameGenerator_GenerateImageFilename,
      GenerateJsonFilename = DefaultFilenameGenerator_GenerateJsonFilename\<rparr>"

record BingImageStorage =
  Storage :: Storage
  Generator :: ImageFilenameGenerator
  OutputDir :: string

definition NewBingImageStorage :: "string \<Rightarrow> BingImageStorage" where
  "NewBingImageStorage outputDir =
     \<lparr>Storage = \<lparr>Save = FileStorage_Save NewFileStorage\<rparr>,
      Generator = NewDefaultFilenameGenerator,
      OutputDir = outputDir\<rparr>"

text \<open>
  \<open>SaveImage\<close> and \<open>SaveJson\<close> return a path and an error; on an error the path is the
  empty string, so the pair is the sum \<^typ>\<open>error + string\<close>.
\<close>

definition SaveImage :: "BingImageStorage \<Rightarrow> bytes \<Rightarrow> ImageData \<Rightarrow> world \<Rightarrow> (error + string) \<times> world" where
  "SaveImage bis data imageData w =
     (let filePath = GenerateImageFilename (Generator bis) imageData (OutputDir bis) in
      case Save (Storage bis) data filePath w of
        (Some err, w') \<Rightarrow> (Inl err, w')
      | (None, w') \<Rightarrow> (Inr filePath, w'))"

definition SaveJson :: "BingImageStorage \<Rightarrow> bytes \<Rightarrow> ImageData \<Rightarrow> world \<Rightarrow> (error + string) \<times> world" where
  "SaveJson bis data imageData w =
     (let filePath = GenerateJsonFilename (Generator bis) imageData (OutputDir bis) in
      case Save (Storage bis) data filePath w of
        (Some err, w') \<Rightarrow> (Inl err, w')
      | (None, w') \<Rightarrow> (Inr filePath, w'))"

section \<open>The downloader (downloader.go)\<close>

text \<open>
  A \<open>*DownloadResult\<close> is a pointer that may be \<open>nil\<close>: \<^typ>\<open>'a option\<close>. The methods
  return a result and an error side by side, and both can be there at once (a partly
  filled result with the error that stopped it), so their value is a pair of two
  options. The metadata is handed over by a pointer that no caller in the package
  leaves \<open>nil\<close>; the model takes the record itself.
\<close>

record DownloadResult =
  ImageData :: ImageData
  ImagePath :: string
  JsonPath :: string
  DownloadErr :: "error option"
  JsonErr :: "error option"

record Downloader =
  Client :: Client
  ImageStorage :: BingImageStorage   \<comment> \<open>the field \<open>Storage\<close>\<close>
  SaveJsonData :: bool

definition NewDownloader :: "Client \<Rightarrow> BingImageStorage \<Rightarrow> Downloader" where
  "NewDownloader client storage =
     \<lparr>Client = client, ImageStorage = storage, SaveJsonData = True\<rparr>"

definition SaveWallpaper ::
  "Downloader \<Rightarrow> ImageData \<Rightarrow> int \<Rightarrow> world
     \<Rightarrow> (DownloadResult option \<times> error option) \<times> world" where
  "SaveWallpaper d imageData daysAgo w =
     (let result = \<lparr>ImageData = imageData, ImagePath = [], JsonPath = [],
                     DownloadErr = None, JsonErr = None\<rparr> in
      case FetchRawImageData (Client d) imageData w of
        (Inl err, w1) \<Rightarrow>
          ((Some (result\<lparr>DownloadErr := Some err\<rparr>), Some (ImageDownloadFailed err)), w1)
      | (Inr imageBytes, w1) \<Rightarrow>
          (case SaveImage (ImageStorage d) imageBytes imageData w1 of
             (Inl err, w2) \<Rightarrow>
               ((Some (result\<lparr>DownloadErr := Some err\<rparr>), Some (ImageSaveFailed err)), w2)
           | (Inr imagePath, w2) \<Rightarrow>
               (let result = result\<lparr>ImagePath := imagePath\<rparr> in
                if SaveJsonData d then
                  (case FetchRawJsonData (Client d) (GetBingApiURL (Client d) daysAgo 1) w2 of
                     (Inl err, w3) \<Rightarrow> ((Some (result\<lparr>JsonErr := Some err\<rparr>), None), w3)
                   | (Inr jsonBytes, w3) \<Rightarrow>
                       (case SaveJson (ImageStorage d) jsonBytes imageData w3 of
                          (Inl err, w4) \<Rightarrow> ((Some (result\<lparr>JsonErr := Some err\<rparr>), None), w4)
                        | (Inr jsonPath, w4) \<Rightarrow>
                            ((Some (result\<lparr>JsonPath := jsonPath\<rparr>), None), w4)))
                else ((Some result, None), w2))))"

definition FetchAndSaveWallpaper ::
  "Downloader \<Rightarrow> int \<Rightarrow> world \<Rightarrow> (DownloadResult option \<times> error option) \<times> world" where
  "FetchAndSaveWallpaper d daysAgo w =
     (case FetchImageData (Client d) daysAgo w of
        (Inl err, w1) \<Rightarrow> ((None, Some (FetchImageDataFailed err)), w1)
      | (Inr imageData, w1) \<Rightarrow> SaveWallpaper d imageData daysAgo w1)"

text \<open>
  The loop of \<open>FetchAndSaveWallpapers\<close>, with its variables \<open>i\<close>, \<open>results\<close> and
  \<open>lastError\<close>; the statements after the loop are its last branch.
\<close>

function FetchAndSaveWallpapers_loop ::
  "Downloader \<Rightarrow> int \<Rightarrow> bool \<Rightarrow> int \<Rightarrow> DownloadResult option list \<Rightarrow> error option \<Rightarrow> world
     \<Rightarrow> (DownloadResult option list \<times> error option) \<times> world" where
  "FetchAndSaveWallpapers_loop d days continueOnError i results lastError w =
     (if i < days then
        (case FetchAndSaveWallpaper d i w of
           ((result, Some err), w') \<Rightarrow>
             if \<not> continueOnError then ((results, Some (DayFailed i err)), w')
             else FetchAndSaveWallpapers_loop d days continueOnError (i + 1)
                    (case result of None \<Rightarrow> results | Some r \<Rightarrow> results @ [result])
                    (Some (DayFailed i err)) w'
         | ((result, None), w') \<Rightarrow>
             FetchAndSaveWallpapers_loop d days continueOnError (i + 1)
               (results @ [result]) lastError w')
      else (case lastError of
              None \<Rightarrow> ((results, None), w)
            | Some e \<Rightarrow>
                if continueOnError then ((results, Some (PartialFailure e)), w)
                else ((results, None), w)))"
  by pat_completeness auto
termination
  by (relation "measure (\<lambda>(d, days, c, i, rs, e, w). nat (days - i))") auto

declare FetchAndSaveWallpapers_loop.simps [simp del]

text \<open>
  \<open>make([]*DownloadResult, 0, days)\<close> panics when \<open>days\<close> is negative, before anything
  else happens.
\<close>

datatype panic = MakesliceCapOutOfRange

definition FetchAndSaveWallpapers ::
  "Downloader \<Rightarrow> int \<Rightarrow> bool \<Rightarrow> world
     \<Rightarrow> panic + ((DownloadResult option list \<times> error option) \<times> world)" where
  "FetchAndSaveWallpapers d days continueOnError w =
     (if days < 0 then Inl MakesliceCapOutOfRange
      else Inr (FetchAndSaveWallpapers_loop d days continueOnError 0 [] None w))"

text \<open>
  The loop of \<open>SaveWallpapers\<close> over the list, \<open>i\<close> the index of its head in the whole
  list. \<open>daysAgo\<close> is that index.
\<close>

fun SaveWallpapers_loop ::
  "Downloader \<Rightarrow> bool \<Rightarrow> nat \<Rightarrow> ImageData list \<Rightarrow> DownloadResult option list \<Rightarrow> error option
     \<Rightarrow> world \<Rightarrow> (DownloadResult option list \<times> error option) \<times> world" where
  "SaveWallpapers_loop d continueOnError i [] results lastError w =
     (case lastError of
        None \<Rightarrow> ((results, None), w)
      | Some e \<Rightarrow>
          if continueOnError then ((results, Some (PartialFailure e)), w)
          else ((results, None), w))"
| "SaveWallpapers_loop d continueOnError i (imageData # rest) results lastError w =
     (let daysAgo = int i in
      case SaveWallpaper d imageData daysAgo w of
        ((result, Some err), w') \<Rightarrow>
          if \<not> continueOnError then ((results, Some (WallpaperFailed (int i) err)), w')
          else SaveWallpapers_loop d continueOnError (i + 1) rest
                 (case result of None \<Rightarrow> results | Some r \<Rightarrow> results @ [result])
                 (Some (WallpaperFailed (int i) err)) w'
      | ((result, None), w') \<Rightarrow>
          SaveWallpapers_loop d continueOnError (i + 1) rest (results @ [result]) lastError w')"

definition SaveWallpapers ::
  "Downloader \<Rightarrow> ImageData list \<Rightarrow> bool \<Rightarrow> world
     \<Rightarrow> (DownloadResult option list \<times> error option) \<times> world" where
  "SaveWallpapers d imageDataList continueOnError w =
     SaveWallpapers_loop d continueOnError 0 imageDataList [] None w"

text \<open>A \<open>nil\<close> slice is the empty list.\<close>

definition DownloadLatestWallpapers ::
  "Downloader \<Rightarrow> int \<Rightarrow> bool \<Rightarrow> world
     \<Rightarrow> (DownloadResult option list \<times> error option) \<times> world" where
  "DownloadLatestWallpapers d days continueOnError w =
     (if days \<le> 0 \<or> days > 16 then (([], Some (DaysOutOfRange days)), w)
      else case FetchMultipleImageData (Client d) days w of
             (Inl err, w1) \<Rightarrow> (([], Some err), w1)
           | (Inr imagesData, w1) \<Rightarrow> SaveWallpapers d imagesData continueOnError w1)"

section \<open>What happens to one record, as a predicate\<close>

text \<open>
  The stages of \<open>SaveWallpaper\<close> that decide its error: the image fetch and, after it, the
  image save. Each predicate says how far a record gets from a given world. The last
  two are for \<open>FetchAndSaveWallpaper\<close>, where the metadata is fetched first.
\<close>

definition image_fetch_fails :: "Downloader \<Rightarrow> ImageData \<Rightarrow> world \<Rightarrow> bool" where
  "image_fetch_fails d imageData w =
     (case FetchRawImageData (Client d) imageData w of
        (Inl err, w1) \<Rightarrow> True
      | (Inr imageBytes, w1) \<Rightarrow> False)"

definition image_save_fails :: "Downloader \<Rightarrow> ImageData \<Rightarrow> world \<Rightarrow> bool" where
  "image_save_fails d imageData w =
     (case FetchRawImageData (Client d) imageData w of
        (Inl err, w1) \<Rightarrow> False
      | (Inr imageBytes, w1) \<Rightarrow>
          (case SaveImage (ImageStorage d) imageBytes imageData w1 of
             (Inl err, w2) \<Rightarrow> True
           | (Inr imagePath, w2) \<Rightarrow> False))"

definition image_stages_succeed :: "Downloader \<Rightarrow> ImageData \<Rightarrow> world \<Rightarrow> bool" where
  "image_stages_succeed d imageData w =
     (case FetchRawImageData (Client d) imageData w of
        (Inl err, w1) \<Rightarrow> False
      | (Inr imageBytes, w1) \<Rightarrow>
          (case SaveImage (ImageStorage d) imageBytes imageData w1 of
             (Inl err, w2) \<Rightarrow> False
           | (Inr imagePath, w2) \<Rightarrow> True))"

definition day_succeeds :: "Downloader \<Rightarrow> int \<Rightarrow> world \<Rightarrow> bool" where
  "day_succeeds d daysAgo w =
     (case FetchImageData (Client d) daysAgo w of
        (Inl err, w1) \<Rightarrow> False
      | (Inr imageData, w1) \<Rightarrow> image_stages_succeed d imageData w1)"

definition day_image_fetch_fails :: "Downloader \<Rightarrow> int \<Rightarrow> world \<Rightarrow> bool" where
  "day_image_fetch_fails d daysAgo w =
     (case FetchImageData (Client d) daysAgo w of
        (Inl err, w1) \<Rightarrow> False
      | (Inr imageData, w1) \<Rightarrow> image_fetch_fails d imageData w1)"

section \<open>A small world for running the model\<close>

text \<open>
  A client of a server at \<open>http://api\<close>, the standard storage under \<open>/out\<close>, and a world
  whose URLs need no rewriting and whose server answers every request with status 200
  and the request's URL as the body,
  except for the URLs listed as failing, and whose file system accepts every write
  except to the paths listed as failing. The JSON decoder knows the bodies of the
  single-day requests for the days 0, 1 and 2.
\<close>

definition ex_client :: Client where
  "ex_client =
     \<lparr>baseURL = ''http://api'', timeout = 1000000000, userAgent = ''ua'',
      client_locale = ''en-US'', highQuality = False\<rparr>"

definition ex_image :: "string \<Rightarrow> ImageData" where
  "ex_image k =
     \<lparr>Startdate = ''2024011'' @ k, Fullstartdate = ''2024011'' @ k @ ''0000'', Enddate = [],
      URL = ''/th?id='' @ k, Urlbase = [], Copyright = [], Copyrightlink = [],
      Title = ''Day '' @ k, Quiz = [], Wp = True, Hsh = [], Drk = 0, Top = 0, Bot = 0,
      Hs = []\<rparr>"

definition ex_archive :: "(bytes \<times> ImageData list) list" where
  "ex_archive =
     [(''http://api?format=js&n=1&idx=0&mkt=en-US'', [ex_image ''0'']),
      (''http://api?format=js&n=1&idx=1&mkt=en-US'', [ex_image ''1'']),
      (''http://api?format=js&n=1&idx=2&mkt=en-US'', [ex_image ''2''])]"

definition ex_world :: "string list \<Rightarrow> string list \<Rightarrow> world" where
  "ex_world failing_urls failing_paths =
     \<lparr>history = [],
      http_NewRequest = (\<lambda>method url. Inr url),
      httpClient_Do = (\<lambda>h t method url ua.
         if url \<in> set failing_urls then Inl (Opaque ''timeout'')
         else Inr (200, Inr url)),
      json_Unmarshal = (\<lambda>data.
         case map_of ex_archive data of
           None \<Rightarrow> Inl (Opaque ''invalid character'')
         | Some images \<Rightarrow>
             Inr \<lparr>Images = images,
                  Tooltips = \<lparr>Loading = [], Previous = [], Next = [], Walle = [], Walls = []\<rparr>\<rparr>),
      os_MkdirAll = (\<lambda>h dir perm. None),
      os_WriteFile = (\<lambda>h path data perm.
         if path \<in> set failing_paths then Some (Opaque ''no space left on device'')
         else None)\<rparr>"

definition ex_downloader :: "bool \<Rightarrow> Downloader" where
  "ex_downloader saveJson =
     (NewDownloader ex_client (NewBingImageStorage ''/out''))\<lparr>SaveJsonData := saveJson\<rparr>"

text \<open>
  First scenario: the image of the third record cannot be fetched. The worlds after the
  first and the second record, on the path with the metadata at hand and on the path
  that fetches it day by day.
\<close>

definition ex1_w0 :: world where
  "ex1_w0 = ex_world [''https://www.bing.com/th?id=2''] []"

definition ex1_w1 :: world where
  "ex1_w1 = snd (SaveWallpaper (ex_downloader False) (ex_image ''0'') 0 ex1_w0)"

definition ex1_w2 :: world where
  "ex1_w2 = snd (SaveWallpaper (ex_downloader False) (ex_image ''1'') 1 ex1_w1)"

definition ex1_v1 :: world where
  "ex1_v1 = snd (FetchAndSaveWallpaper (ex_downloader False) 0 ex1_w0)"

definition ex1_v2 :: world where
  "ex1_v2 = snd (FetchAndSaveWallpaper (ex_downloader False) 1 ex1_v1)"

text \<open>
  Second and third scenario: the image of day 0 is fetched and saved, then the archive
  does not answer the request for the raw JSON (second), or the JSON file cannot be
  written (third).
\<close>

definition ex2_w0 :: world where
  "ex2_w0 = ex_world [''http://api?format=js&n=1&idx=0&mkt=en-US''] []"

definition ex2_w1 :: world where
  "ex2_w1 = snd (FetchRawImageData (Client (ex_downloader True)) (ex_image ''0'') ex2_w0)"

definition ex2_w2 :: world where
  "ex2_w2 = snd (SaveImage (ImageStorage (ex_downloader True))
                   ''https://www.bing.com/th?id=0'' (ex_image ''0'') ex2_w1)"

definition ex2_w3 :: world where
  "ex2_w3 = snd (FetchRawJsonData (Client (ex_downloader True))
                   (GetBingApiURL (Client (ex_downloader True)) 0 1) ex2_w2)"

definition ex3_w0 :: world where
  "ex3_w0 = ex_world [] [''/out/bing_data_20240110.json'']"

definition ex3_w1 :: world where
  "ex3_w1 = snd (FetchRawImageData (Client (ex_downloader True)) (ex_image ''0'') ex3_w0)"

definition ex3_w2 :: world where
  "ex3_w2 = snd (SaveImage (ImageStorage (ex_downloader True))
                   ''https://www.bing.com/th?id=0'' (ex_image ''0'') ex3_w1)"

definition ex3_w3 :: world where
  "ex3_w3 = snd (FetchRawJsonData (Client (ex_downloader True))
                   (GetBingApiURL (Client (ex_downloader True)) 0 1) ex3_w2)"

definition ex3_w4 :: world where
  "ex3_w4 = snd (SaveJson (ImageStorage (ex_downloader True))
                   ''http://api?format=js&n=1&idx=0&mkt=en-US'' (ex_image ''0'') ex3_w3)"

text \<open>
  Fourth scenario: everything is fetched, and the image file of the third record cannot
  be written. The worlds after each of the first four records.
\<close>

definition ex4_w0 :: world where
  "ex4_w0 = ex_world [] [''/out/20240112_Day_2.jpg'']"

definition ex4_w1 :: world where
  "ex4_w1 = snd (SaveWallpaper (ex_downloader True) (ex_image ''0'') 0 ex4_w0)"

definition ex4_w2 :: world where
  "ex4_w2 = snd (SaveWallpaper (ex_downloader True) (ex_image ''1'') 1 ex4_w1)"

definition ex4_w3 :: world where
  "ex4_w3 = snd (SaveWallpaper (ex_downloader True) (ex_image ''2'') 2 ex4_w2)"

definition ex4_w4 :: world where
  "ex4_w4 = snd (SaveWallpaper (ex_downloader True) (ex_image ''3'') 3 ex4_w3)"

text \<open>
  Fifth scenario: the storage is given other parts than the standard ones, as
  \<open>SetFilenameGenerator\<close> and \<open>SetStorage\<close> allow: a generator whose path is always the
  empty string, and a storage that keeps nothing on disk and accepts every save but
  those of the data listed as rejected. The worlds after each of the first four records
  when the image of the third record is rejected.
\<close>

definition ex_empty_generator :: ImageFilenameGenerator where
  "ex_empty_generator =
     \<lparr>GenerateImageFilename = (\<lambda>imageData basePath. []),
      GenerateJsonFilename = (\<lambda>imageData basePath. [])\<rparr>"

definition ex_stub_storage :: "bytes list \<Rightarrow> Storage" where
  "ex_stub_storage rejected =
     \<lparr>Save = (\<lambda>data path w.
         if data \<in> set rejected then (Some (Opaque ''rejected''), w) else (None, w))\<rparr>"

definition ex_stub_downloader :: "bytes list \<Rightarrow> Downloader" where
  "ex_stub_downloader rejected =
     \<lparr>Client = ex_client,
      ImageStorage = \<lparr>Storage = ex_stub_storage rejected, Generator = ex_empty_generator,
                       OutputDir = ''/out''\<rparr>,
      SaveJsonData = False\<rparr>"

definition ex5_d :: Downloader where
  "ex5_d = ex_stub_downloader [''https://www.bing.com/th?id=2'']"

definition ex5_w0 :: world where
  "ex5_w0 = ex_world [] []"

definition ex5_w1 :: world where
  "ex5_w1 = snd (SaveWallpaper ex5_d (ex_image ''0'') 0 ex5_w0)"

definition ex5_w2 :: world where
  "ex5_w2 = snd (SaveWallpaper ex5_d (ex_image ''1'') 1 ex5_w1)"

definition ex5_w3 :: world where
  "ex5_w3 = snd (SaveWallpaper ex5_d (ex_image ''2'') 2 ex5_w2)"

definition ex5_w4 :: world where
  "ex5_w4 = snd (SaveWallpaper ex5_d (ex_image ''3'') 3 ex5_w3)"

section \<open>Properties of the file names and the archive URL\<close>

lemma strings_Split_not_Nil: "strings_Split s sep \<noteq> []"
  by (subst strings_Split.simps) (simp split: option.split)

lemma TrimSpace_Aurora: "strings_TrimSpace ''Aurora Borealis'' = ''Aurora Borealis''"
  by code_simp

lemma replaceSpecialChars_Aurora: "replaceSpecialChars ''Aurora Borealis'' = ''Aurora_Borealis''"
  by code_simp

lemma Join_out_image:
  "filepath_Join [''/out'', ''20240115_Aurora_Borealis.jpg''] = ''/out/20240115_Aurora_Borealis.jpg''"
  by code_simp

lemma Join_out_json:
  "filepath_Join [''/out'', ''bing_data_20240115.json''] = ''/out/bing_data_20240115.json''"
  by code_simp

text \<open>
  C5. Whatever its other fields hold, a metadata record with start date \<open>20240115\<close> and
  title \<open>Aurora Borealis\<close> gets, under the base directory \<open>/out\<close>, the image file name
  \<open>/out/20240115_Aurora_Borealis.jpg\<close> and the JSON file name
  \<open>/out/bing_data_20240115.json\<close> (paths as a Unix build joins them).
\<close>

theorem filenames_Aurora_Borealis:
  "DefaultFilenameGenerator_GenerateImageFilename
     (imageData\<lparr>Startdate := ''20240115'', Title := ''Aurora Borealis''\<rparr>) ''/out''
     = ''/out/20240115_Aurora_Borealis.jpg''
   \<and> DefaultFilenameGenerator_GenerateJsonFilename
     (imageData\<lparr>Startdate := ''20240115'', Title := ''Aurora Borealis''\<rparr>) ''/out''
     = ''/out/bing_data_20240115.json''"
proof -
  let ?m = "imageData\<lparr>Startdate := ''20240115'', Title := ''Aurora Borealis''\<rparr>"
  have d: "GenerateImageFilename_description ?m = ''Aurora_Borealis''"
    by (simp add: GenerateImageFilename_description_def TrimSpace_Aurora
        replaceSpecialChars_Aurora)
  have "DefaultFilenameGenerator_GenerateImageFilename ?m ''/out''
      = filepath_Join [''/out'', ''20240115_Aurora_Borealis.jpg'']"
    unfolding DefaultFilenameGenerator_GenerateImageFilename_def d by simp
  moreover have "DefaultFilenameGenerator_GenerateJsonFilename ?m ''/out''
      = filepath_Join [''/out'', ''bing_data_20240115.json'']"
    unfolding DefaultFilenameGenerator_GenerateJsonFilename_def by simp
  ultimately show ?thesis
    by (simp only: Join_out_image Join_out_json)
qed

text \<open>
  C7. The description that \<open>DefaultFilenameGenerator.GenerateImageFilename\<close> derives for
  a record is the string \<open>ExtractWallpaperDescription\<close> returns for it, so the image file
  name is the start date, an underscore, that string and \<open>.jpg\<close>, joined to the base
  directory.
\<close>

theorem description_implementations_agree:
  "GenerateImageFilename_description imageData = ExtractWallpaperDescription imageData
   \<and> DefaultFilenameGenerator_GenerateImageFilename imageData basePath
       = filepath_Join
           [basePath,
            Startdate imageData @ ''_'' @ ExtractWallpaperDescription imageData @ ''.jpg'']"
proof -
  have "GenerateImageFilename_description imageData = ExtractWallpaperDescription imageData"
    by (simp add: GenerateImageFilename_description_def ExtractWallpaperDescription_def
        replaceSpecialChars_def Let_def)
  then show ?thesis
    by (simp add: DefaultFilenameGenerator_GenerateImageFilename_def)
qed

text \<open>
  C8. \<open>GetBingApiURL(daysAgo, count)\<close> is the base URL followed by \<open>?format=js&n=\<close>, the
  count in decimal, \<open>&idx=\<close>, the offset in decimal, \<open>&mkt=\<close> and the locale. It is a
  function of the client's configuration and its two arguments, so equal inputs give
  equal URLs.
\<close>

theorem GetBingApiURL_format:
  "GetBingApiURL c daysAgo count
     = baseURL c @ ''?format=js&n='' @ Itoa count @ ''&idx='' @ Itoa daysAgo
         @ ''&mkt='' @ client_locale c"
  by (simp add: GetBingApiURL_def)

lemma Replace_char_Cons:
  assumes "new \<noteq> [c]" and "n \<noteq> 0"
  shows "strings_Replace (x # xs) [c] new n =
          (if x = c then new @ strings_Replace xs [c] new (n - 1)
           else x # strings_Replace xs [c] new n)"
proof (cases "x = c")
  case True
  with assms show ?thesis
    by (subst strings_Replace.simps) auto
next
  case False
  show ?thesis
  proof (cases "strings_Index xs [c]")
    case None
    with False assms show ?thesis
      by (subst strings_Replace.simps, subst (2) strings_Replace.simps) auto
  next
    case (Some j)
    with False assms show ?thesis
      by (subst strings_Replace.simps, subst (2) strings_Replace.simps) auto
  qed
qed

lemma Replace_char_Nil: "strings_Replace [] [c] new n = []"
  by (subst strings_Replace.simps) simp

lemma Replace_char_all:
  "n < 0 \<Longrightarrow> strings_Replace s [c] new n = concat (map (\<lambda>x. if x = c then new else [x]) s)"
proof (cases "new = [c]")
  case True
  have "concat (map (\<lambda>x. if x = c then [c] else [x]) s) = s"
    by (induction s) auto
  then show ?thesis
    unfolding True by (subst strings_Replace.simps) simp
next
  case False
  assume "n < 0"
  with False show ?thesis
    by (induction s arbitrary: n) (simp_all add: Replace_char_Nil Replace_char_Cons)
qed

lemma ReplaceAll_char:
  "strings_ReplaceAll s [c] new = concat (map (\<lambda>x. if x = c then new else [x]) s)"
  by (simp add: strings_ReplaceAll_def Replace_char_all)

lemma ReplaceAll_char_append:
  "strings_ReplaceAll (a @ b) [c] new = strings_ReplaceAll a [c] new @ strings_ReplaceAll b [c] new"
  by (simp add: ReplaceAll_char)

lemma replaceSpecialChars_append:
  "replaceSpecialChars (a @ b) = replaceSpecialChars a @ replaceSpecialChars b"
  by (simp add: replaceSpecialChars_def ReplaceAll_char_append)

lemma replaceSpecialChars_Nil: "replaceSpecialChars [] = []"
  by (simp add: replaceSpecialChars_def ReplaceAll_char)

lemma replaceSpecialChars_single:
  "replaceSpecialChars [x] =
     (if x = CHR '' '' then ''_''
      else if x = CHR ''/'' \<or> x = CHR 0x5C \<or> x = CHR '':'' \<or> x = CHR ''|'' then ''-''
      else if x = CHR ''?'' \<or> x = CHR ''*'' \<or> x = CHR ''<'' \<or> x = CHR ''>'' then []
      else if x = CHR 0x22 then [CHR 0x27]
      else [x])"
  by (simp add: replaceSpecialChars_def ReplaceAll_char)

lemma replaceSpecialChars_Cons:
  "replaceSpecialChars (x # xs) = replaceSpecialChars [x] @ replaceSpecialChars xs"
  using replaceSpecialChars_append [of "[x]" xs] by simp

lemma replaceSpecialChars_single_idem:
  "replaceSpecialChars (replaceSpecialChars [x]) = replaceSpecialChars [x]"
  by (simp add: replaceSpecialChars_single replaceSpecialChars_Nil)

lemma replaceSpecialChars_idem:
  "replaceSpecialChars (replaceSpecialChars s) = replaceSpecialChars s"
proof (induction s)
  case Nil
  show ?case by (simp add: replaceSpecialChars_Nil)
next
  case (Cons x xs)
  have "replaceSpecialChars (replaceSpecialChars (x # xs))
      = replaceSpecialChars (replaceSpecialChars [x]) @ replaceSpecialChars (replaceSpecialChars xs)"
    by (simp add: replaceSpecialChars_Cons [of x xs] replaceSpecialChars_append)
  with Cons.IH show ?case
    by (simp add: replaceSpecialChars_single_idem replaceSpecialChars_Cons [of x xs])
qed

lemma replaceSpecialChars_single_clean:
  "set (replaceSpecialChars [x]) \<inter> {CHR ''/'', CHR 0x5C, CHR '':'', CHR ''?'', CHR ''*'', CHR ''<'', CHR ''>'', CHR 0x22, CHR '' ''} = {}"
  by (auto simp: replaceSpecialChars_single)

lemma replaceSpecialChars_clean:
  "set (replaceSpecialChars s) \<inter> {CHR ''/'', CHR 0x5C, CHR '':'', CHR ''?'', CHR ''*'', CHR ''<'', CHR ''>'', CHR 0x22, CHR '' ''} = {}"
proof (induction s)
  case Nil
  show ?case by (simp add: replaceSpecialChars_Nil)
next
  case (Cons x xs)
  with replaceSpecialChars_single_clean [of x] show ?case
    by (simp only: replaceSpecialChars_Cons [of x xs] set_append Int_Un_distrib2 Un_empty)
qed

lemma GenerateImageFilename_description_replaced:
  "\<exists>t. GenerateImageFilename_description imageData = replaceSpecialChars t"
  by (auto simp: GenerateImageFilename_description_def Let_def)

lemma ExtractWallpaperDescription_replaced:
  "\<exists>t. ExtractWallpaperDescription imageData = replaceSpecialChars t"
  by (auto simp: ExtractWallpaperDescription_def replaceSpecialChars_def Let_def)

text \<open>
  C6. The replacement of special characters is defined on every string and doing it
  twice is the same as doing it once; a space becomes an underscore; and what it
  returns, hence the description in a generated image file name and the string
  \<open>ExtractWallpaperDescription\<close> returns, has none of the characters
  \<open>/ \ : ? * < > "\<close> and no space. Replacing again in a description changes nothing.
\<close>

theorem replaceSpecialChars_idempotent_clean:
  "replaceSpecialChars (replaceSpecialChars s) = replaceSpecialChars s
   \<and> replaceSpecialChars (a @ '' '' @ b) = replaceSpecialChars a @ ''_'' @ replaceSpecialChars b
   \<and> set (replaceSpecialChars s)
       \<inter> {CHR ''/'', CHR 0x5C, CHR '':'', CHR ''?'', CHR ''*'', CHR ''<'', CHR ''>'', CHR 0x22, CHR '' ''} = {}
   \<and> set (GenerateImageFilename_description imageData)
       \<inter> {CHR ''/'', CHR 0x5C, CHR '':'', CHR ''?'', CHR ''*'', CHR ''<'', CHR ''>'', CHR 0x22, CHR '' ''} = {}
   \<and> set (ExtractWallpaperDescription imageData)
       \<inter> {CHR ''/'', CHR 0x5C, CHR '':'', CHR ''?'', CHR ''*'', CHR ''<'', CHR ''>'', CHR 0x22, CHR '' ''} = {}
   \<and> replaceSpecialChars (GenerateImageFilename_description imageData)
       = GenerateImageFilename_description imageData
   \<and> replaceSpecialChars (ExtractWallpaperDescription imageData)
       = ExtractWallpaperDescription imageData"
proof -
  obtain t u where t: "GenerateImageFilename_description imageData = replaceSpecialChars t"
    and u: "ExtractWallpaperDescription imageData = replaceSpecialChars u"
    using GenerateImageFilename_description_replaced ExtractWallpaperDescription_replaced
    by blast
  have space: "replaceSpecialChars (a @ '' '' @ b)
      = replaceSpecialChars a @ ''_'' @ replaceSpecialChars b"
    using replaceSpecialChars_Cons [of "CHR '' ''" b]
    by (simp add: replaceSpecialChars_append replaceSpecialChars_single)
  show ?thesis
    unfolding t u
    by (intro conjI replaceSpecialChars_idem replaceSpecialChars_clean space)
qed

section \<open>Properties of the downloader\<close>

lemma filepath_Clean_not_Nil: "filepath_Clean path \<noteq> []"
  by (simp add: filepath_Clean_def Let_def split: list.split)

lemma DefaultFilenameGenerator_GenerateImageFilename_not_Nil:
  "DefaultFilenameGenerator_GenerateImageFilename imageData basePath \<noteq> []"
  by (simp add: DefaultFilenameGenerator_GenerateImageFilename_def Let_def
      filepath_Clean_not_Nil)

lemma SaveImage_path:
  "SaveImage bis data imageData w = (Inr p, w')
    \<Longrightarrow> p = GenerateImageFilename (Generator bis) imageData (OutputDir bis)"
  by (auto simp: SaveImage_def Let_def split: prod.splits option.splits)

lemma SaveWallpaper_fetch_failed:
  "FetchRawImageData (Client d) imageData w = (Inl e, w1)
    \<Longrightarrow> SaveWallpaper d imageData daysAgo w =
        ((Some \<lparr>ImageData = imageData, ImagePath = [], JsonPath = [],
                 DownloadErr = Some e, JsonErr = None\<rparr>,
          Some (ImageDownloadFailed e)), w1)"
  by (simp add: SaveWallpaper_def)

lemma SaveWallpaper_save_failed:
  "FetchRawImageData (Client d) imageData w = (Inr b, w1)
    \<Longrightarrow> SaveImage (ImageStorage d) b imageData w1 = (Inl e, w2)
    \<Longrightarrow> SaveWallpaper d imageData daysAgo w =
        ((Some \<lparr>ImageData = imageData, ImagePath = [], JsonPath = [],
                 DownloadErr = Some e, JsonErr = None\<rparr>,
          Some (ImageSaveFailed e)), w2)"
  by (simp add: SaveWallpaper_def)

lemma SaveWallpaper_image_saved:
  "FetchRawImageData (Client d) imageData w = (Inr b, w1)
    \<Longrightarrow> SaveImage (ImageStorage d) b imageData w1 = (Inr p, w2)
    \<Longrightarrow> \<exists>jp je w'. SaveWallpaper d imageData daysAgo w =
        ((Some \<lparr>ImageData = imageData, ImagePath = p, JsonPath = jp,
                 DownloadErr = None, JsonErr = je\<rparr>, None), w')"
  by (auto simp: SaveWallpaper_def Let_def split: prod.splits sum.splits)

lemma SaveWallpaper_cases:
  obtains
    (fetch_failed) e w1 where "FetchRawImageData (Client d) imageData w = (Inl e, w1)"
  | (save_failed) b w1 e w2 where "FetchRawImageData (Client d) imageData w = (Inr b, w1)"
      and "SaveImage (ImageStorage d) b imageData w1 = (Inl e, w2)"
  | (image_saved) b w1 p w2 where "FetchRawImageData (Client d) imageData w = (Inr b, w1)"
      and "SaveImage (ImageStorage d) b imageData w1 = (Inr p, w2)"
proof (cases "FetchRawImageData (Client d) imageData w")
  case (Pair x w1)
  show ?thesis
  proof (cases x)
    case (Inl e)
    with Pair fetch_failed show ?thesis by simp
  next
    case (Inr b)
    obtain y w2 where s: "SaveImage (ImageStorage d) b imageData w1 = (y, w2)"
      by (cases "SaveImage (ImageStorage d) b imageData w1")
    show ?thesis
    proof (cases y)
      case (Inl e)
      with Pair Inr s save_failed show ?thesis by simp
    next
      case (Inr p)
      with Pair \<open>x = Inr b\<close> s image_saved show ?thesis by simp
    qed
  qed
qed

lemma image_fetch_fails_SaveWallpaper:
  assumes "image_fetch_fails d imageData w"
  shows "\<exists>e. SaveWallpaper d imageData daysAgo w =
          ((Some \<lparr>ImageData = imageData, ImagePath = [], JsonPath = [],
                   DownloadErr = Some e, JsonErr = None\<rparr>,
            Some (ImageDownloadFailed e)), snd (FetchRawImageData (Client d) imageData w))"
proof (cases rule: SaveWallpaper_cases [of d imageData w])
  case (fetch_failed e w1)
  from SaveWallpaper_fetch_failed [OF this, of daysAgo] fetch_failed show ?thesis by simp
next
  case (save_failed b w1 e w2)
  with assms show ?thesis by (simp add: image_fetch_fails_def)
next
  case (image_saved b w1 p w2)
  with assms show ?thesis by (simp add: image_fetch_fails_def)
qed

lemma image_save_fails_SaveWallpaper:
  assumes "image_save_fails d imageData w"
  shows "\<exists>e. SaveWallpaper d imageData daysAgo w =
          ((Some \<lparr>ImageData = imageData, ImagePath = [], JsonPath = [],
                   DownloadErr = Some e, JsonErr = None\<rparr>,
            Some (ImageSaveFailed e)), snd (SaveWallpaper d imageData daysAgo w))"
proof (cases rule: SaveWallpaper_cases [of d imageData w])
  case (fetch_failed e w1)
  with assms show ?thesis by (simp add: image_save_fails_def)
next
  case (save_failed b w1 e w2)
  from SaveWallpaper_save_failed [OF this, of daysAgo] show ?thesis by simp
next
  case (image_saved b w1 p w2)
  with assms show ?thesis by (simp add: image_save_fails_def)
qed

lemma image_stages_succeed_SaveWallpaper:
  assumes "image_stages_succeed d imageData w"
  shows "\<exists>jp je. SaveWallpaper d imageData daysAgo w =
          ((Some \<lparr>ImageData = imageData,
                   ImagePath = GenerateImageFilename (Generator (ImageStorage d)) imageData
                                 (OutputDir (ImageStorage d)),
                   JsonPath = jp, DownloadErr = None, JsonErr = je\<rparr>,
            None), snd (SaveWallpaper d imageData daysAgo w))"
proof (cases rule: SaveWallpaper_cases [of d imageData w])
  case (fetch_failed e w1)
  with assms show ?thesis by (simp add: image_stages_succeed_def)
next
  case (save_failed b w1 e w2)
  with assms show ?thesis by (simp add: image_stages_succeed_def)
next
  case (image_saved b w1 p w2)
  from SaveWallpaper_image_saved [OF this, of daysAgo] SaveImage_path [OF image_saved(2)]
  show ?thesis by auto
qed

lemma SaveWallpapers_loop_ok:
  "SaveWallpaper d imageData (int i) w = ((result, None), w')
    \<Longrightarrow> SaveWallpapers_loop d c i (imageData # rest) results lastError w
        = SaveWallpapers_loop d c (i + 1) rest (results @ [result]) lastError w'"
  by simp

lemma SaveWallpapers_loop_stop:
  "SaveWallpaper d imageData (int i) w = ((result, Some e), w')
    \<Longrightarrow> SaveWallpapers_loop d False i (imageData # rest) results lastError w
        = ((results, Some (WallpaperFailed (int i) e)), w')"
  by simp

lemma SaveWallpapers_loop_continue:
  "SaveWallpaper d imageData (int i) w = ((Some r, Some e), w')
    \<Longrightarrow> SaveWallpapers_loop d True i (imageData # rest) results lastError w
        = SaveWallpapers_loop d True (i + 1) rest (results @ [Some r])
            (Some (WallpaperFailed (int i) e)) w'"
  by simp

lemma FetchAndSaveWallpaper_metadata_failed:
  "FetchImageData (Client d) daysAgo w = (Inl e, w1)
    \<Longrightarrow> FetchAndSaveWallpaper d daysAgo w = ((None, Some (FetchImageDataFailed e)), w1)"
  by (simp add: FetchAndSaveWallpaper_def)

lemma FetchAndSaveWallpaper_metadata_ok:
  "FetchImageData (Client d) daysAgo w = (Inr imageData, w1)
    \<Longrightarrow> FetchAndSaveWallpaper d daysAgo w = SaveWallpaper d imageData daysAgo w1"
  by (simp add: FetchAndSaveWallpaper_def)

lemma FetchAndSaveWallpapers_loop_ok:
  "i < days \<Longrightarrow> FetchAndSaveWallpaper d i w = ((result, None), w')
    \<Longrightarrow> FetchAndSaveWallpapers_loop d days c i results lastError w
        = FetchAndSaveWallpapers_loop d days c (i + 1) (results @ [result]) lastError w'"
  by (subst FetchAndSaveWallpapers_loop.simps) simp

lemma FetchAndSaveWallpapers_loop_stop:
  "i < days \<Longrightarrow> FetchAndSaveWallpaper d i w = ((result, Some e), w')
    \<Longrightarrow> FetchAndSaveWallpapers_loop d days False i results lastError w
        = ((results, Some (DayFailed i e)), w')"
  by (subst FetchAndSaveWallpapers_loop.simps) simp

lemma FetchAndSaveWallpapers_loop_continue:
  "i < days \<Longrightarrow> FetchAndSaveWallpaper d i w = ((result, Some e), w')
    \<Longrightarrow> FetchAndSaveWallpapers_loop d days True i results lastError w
        = FetchAndSaveWallpapers_loop d days True (i + 1)
            (case result of None \<Rightarrow> results | Some r \<Rightarrow> results @ [result])
            (Some (DayFailed i e)) w'"
  by (subst FetchAndSaveWallpapers_loop.simps) simp

lemma FetchAndSaveWallpapers_loop_length:
  "length (fst (fst (FetchAndSaveWallpapers_loop d days c i results lastError w)))
     \<le> length results + nat (days - i)"
proof (induction d days c i results lastError w rule: FetchAndSaveWallpapers_loop.induct)
  case (1 d days c i results lastError w)
  show ?case
  proof (cases "i < days")
    case False
    then show ?thesis
      by (subst FetchAndSaveWallpapers_loop.simps) (simp split: option.split)
  next
    case True
    obtain result err w' where f: "FetchAndSaveWallpaper d i w = ((result, err), w')"
      by (metis surj_pair)
    show ?thesis
    proof (cases err)
      case None
      from "1.IH"(1) [OF True f [symmetric] refl None]
      have "length (fst (fst (FetchAndSaveWallpapers_loop d days c (i + 1)
              (results @ [result]) lastError w'))) \<le> length (results @ [result]) + nat (days - (i + 1))" .
      with True f None show ?thesis
        by (simp add: FetchAndSaveWallpapers_loop_ok [OF True])
    next
      case (Some e)
      show ?thesis
      proof (cases c)
        case False
        with True f Some show ?thesis
          by (simp add: FetchAndSaveWallpapers_loop_stop [OF True])
      next
        case c: True
        let ?rs = "case result of None \<Rightarrow> results | Some r \<Rightarrow> results @ [result]"
        from c have "\<not> \<not> c" by simp
        from "1.IH"(2) [OF True f [symmetric] refl Some this]
        have "length (fst (fst (FetchAndSaveWallpapers_loop d days c (i + 1) ?rs
                (Some (DayFailed i e)) w'))) \<le> length ?rs + nat (days - (i + 1))" .
        moreover have "length ?rs \<le> length results + 1"
          by (simp split: option.split)
        ultimately show ?thesis
          using True f Some c
          by (simp add: FetchAndSaveWallpapers_loop_continue [OF True])
      qed
    qed
  qed
qed

lemma FetchAndSaveWallpapers_loop_error:
  "lastError \<noteq> None
    \<Longrightarrow> snd (fst (FetchAndSaveWallpapers_loop d days True i results lastError w)) \<noteq> None"
proof (induction d days "True" i results lastError w rule: FetchAndSaveWallpapers_loop.induct)
  case (1 d days i results lastError w)
  show ?case
  proof (cases "i < days")
    case False
    with "1.prems" show ?thesis
      by (subst FetchAndSaveWallpapers_loop.simps) (auto split: option.split)
  next
    case True
    obtain result err w' where f: "FetchAndSaveWallpaper d i w = ((result, err), w')"
      by (metis surj_pair)
    show ?thesis
    proof (cases err)
      case None
      from "1.hyps"(1) [OF True f [symmetric] refl None "1.prems"] f None show ?thesis
        by (simp add: FetchAndSaveWallpapers_loop_ok [OF True])
    next
      case (Some e)
      have "\<not> \<not> True" by simp
      from "1.hyps"(2) [OF True f [symmetric] refl Some this] f Some show ?thesis
        by (simp add: FetchAndSaveWallpapers_loop_continue [OF True])
    qed
  qed
qed

lemma day_succeeds_FetchAndSaveWallpaper:
  assumes "day_succeeds d daysAgo w"
  shows "\<exists>r. FetchAndSaveWallpaper d daysAgo w
            = ((Some r, None), snd (FetchAndSaveWallpaper d daysAgo w))
          \<and> DownloadErr r = None"
proof -
  from assms obtain imageData w1
    where f: "FetchImageData (Client d) daysAgo w = (Inr imageData, w1)"
      and s: "image_stages_succeed d imageData w1"
    by (auto simp: day_succeeds_def split: prod.splits sum.splits)
  from image_stages_succeed_SaveWallpaper [OF s, of daysAgo]
    FetchAndSaveWallpaper_metadata_ok [OF f]
  show ?thesis by auto
qed

lemma image_fetch_fails_error:
  assumes "image_fetch_fails d imageData w"
  shows "\<exists>e. fst (FetchRawImageData (Client d) imageData w) = Inl e
    \<and> SaveWallpaper d imageData daysAgo w =
          ((Some \<lparr>ImageData = imageData, ImagePath = [], JsonPath = [],
                   DownloadErr = Some e, JsonErr = None\<rparr>,
            Some (ImageDownloadFailed e)), snd (FetchRawImageData (Client d) imageData w))"
proof -
  from assms obtain e w1 where f: "FetchRawImageData (Client d) imageData w = (Inl e, w1)"
    by (auto simp: image_fetch_fails_def split: prod.splits sum.splits)
  from SaveWallpaper_fetch_failed [OF f, of daysAgo] f show ?thesis by simp
qed

lemma day_image_fetch_fails_FetchAndSaveWallpaper:
  assumes "day_image_fetch_fails d daysAgo w"
  shows "\<exists>imageData e.
      fst (FetchImageData (Client d) daysAgo w) = Inr imageData
      \<and> fst (FetchRawImageData (Client d) imageData
                (snd (FetchImageData (Client d) daysAgo w))) = Inl e
      \<and> FetchAndSaveWallpaper d daysAgo w =
          ((Some \<lparr>ImageData = imageData, ImagePath = [], JsonPath = [],
                   DownloadErr = Some e, JsonErr = None\<rparr>,
            Some (ImageDownloadFailed e)), snd (FetchAndSaveWallpaper d daysAgo w))"
proof -
  from assms obtain imageData w1
    where f: "FetchImageData (Client d) daysAgo w = (Inr imageData, w1)"
      and s: "image_fetch_fails d imageData w1"
    by (auto simp: day_image_fetch_fails_def split: prod.splits sum.splits)
  from image_fetch_fails_error [OF s, of daysAgo]
    FetchAndSaveWallpaper_metadata_ok [OF f] f
  show ?thesis by auto
qed

lemma SaveWallpapers_first_error:
  assumes w1: "w1 = snd (SaveWallpaper d m0 0 w0)"
    and w2: "w2 = snd (SaveWallpaper d m1 1 w1)"
    and s0: "image_stages_succeed d m0 w0"
    and s1: "image_stages_succeed d m1 w1"
    and f2: "image_fetch_fails d m2 w2"
  shows "\<exists>r0 r1 e.
      fst (SaveWallpaper d m0 0 w0) = (Some r0, None)
      \<and> fst (SaveWallpaper d m1 1 w1) = (Some r1, None)
      \<and> fst (FetchRawImageData (Client d) m2 w2) = Inl e
      \<and> fst (SaveWallpaper d m2 2 w2)
          = (Some \<lparr>ImageData = m2, ImagePath = [], JsonPath = [],
                    DownloadErr = Some e, JsonErr = None\<rparr>,
             Some (ImageDownloadFailed e))
      \<and> SaveWallpapers d [m0, m1, m2, m3, m4] False w0
        = (([Some r0, Some r1], Some (WallpaperFailed 2 (ImageDownloadFailed e))),
           snd (SaveWallpaper d m2 2 w2))
      \<and> ImageData r0 = m0 \<and> DownloadErr r0 = None
      \<and> ImagePath r0 = GenerateImageFilename (Generator (ImageStorage d)) m0
                          (OutputDir (ImageStorage d))
      \<and> ImageData r1 = m1 \<and> DownloadErr r1 = None
      \<and> ImagePath r1 = GenerateImageFilename (Generator (ImageStorage d)) m1
                          (OutputDir (ImageStorage d))
      \<and> Some \<lparr>ImageData = m2, ImagePath = [], JsonPath = [],
                DownloadErr = Some e, JsonErr = None\<rparr> \<notin> set [Some r0, Some r1]"
proof -
  let ?p = "\<lambda>m. GenerateImageFilename (Generator (ImageStorage d)) m (OutputDir (ImageStorage d))"
  from image_stages_succeed_SaveWallpaper [OF s0, of 0] w1
  obtain r0 where r0: "SaveWallpaper d m0 (int 0) w0 = ((Some r0, None), w1)"
    and p0: "ImageData r0 = m0" "DownloadErr r0 = None" "ImagePath r0 = ?p m0"
    by auto
  from image_stages_succeed_SaveWallpaper [OF s1, of 1] w2
  obtain r1 where r1: "SaveWallpaper d m1 (int (0 + 1)) w1 = ((Some r1, None), w2)"
    and p1: "ImageData r1 = m1" "DownloadErr r1 = None" "ImagePath r1 = ?p m1"
    by auto
  let ?partial = "\<lambda>e. \<lparr>ImageData = m2, ImagePath = [], JsonPath = [],
                          DownloadErr = Some e, JsonErr = None\<rparr>"
  from image_fetch_fails_error [OF f2, of 2]
  obtain e where e: "fst (FetchRawImageData (Client d) m2 w2) = Inl e"
    and r2: "SaveWallpaper d m2 (int (0 + 1 + 1)) w2 =
      ((Some (?partial e), Some (ImageDownloadFailed e)),
       snd (FetchRawImageData (Client d) m2 w2))"
    by auto
  from r2 have w3: "snd (FetchRawImageData (Client d) m2 w2) = snd (SaveWallpaper d m2 2 w2)"
    by simp
  have "SaveWallpapers d [m0, m1, m2, m3, m4] False w0
      = SaveWallpapers_loop d False (0 + 1) [m1, m2, m3, m4] ([] @ [Some r0]) None w1"
    unfolding SaveWallpapers_def by (rule SaveWallpapers_loop_ok [OF r0])
  also have "\<dots> = SaveWallpapers_loop d False (0 + 1 + 1) [m2, m3, m4]
      (([] @ [Some r0]) @ [Some r1]) None w2"
    by (rule SaveWallpapers_loop_ok [OF r1])
  also have "\<dots> = (((([] @ [Some r0]) @ [Some r1]),
      Some (WallpaperFailed (int (0 + 1 + 1)) (ImageDownloadFailed e))),
      snd (FetchRawImageData (Client d) m2 w2))"
    by (rule SaveWallpapers_loop_stop [OF r2])
  finally have run: "SaveWallpapers d [m0, m1, m2, m3, m4] False w0
      = (([Some r0, Some r1], Some (WallpaperFailed 2 (ImageDownloadFailed e))),
         snd (SaveWallpaper d m2 2 w2))"
    by (simp add: w3)
  from r0 have a0: "fst (SaveWallpaper d m0 0 w0) = (Some r0, None)"
    by simp
  from r1 have a1: "fst (SaveWallpaper d m1 1 w1) = (Some r1, None)"
    by simp
  from r2 have a2: "fst (SaveWallpaper d m2 2 w2)
      = (Some (?partial e), Some (ImageDownloadFailed e))"
    by simp
  from p0 p1 have n: "Some (?partial e) \<notin> set [Some r0, Some r1]"
    by auto
  from a0 a1 e a2 run p0 p1 n show ?thesis by blast
qed

lemma FetchAndSaveWallpapers_first_error:
  assumes v1: "v1 = snd (FetchAndSaveWallpaper d 0 v0)"
    and v2: "v2 = snd (FetchAndSaveWallpaper d 1 v1)"
    and s0: "day_succeeds d 0 v0"
    and s1: "day_succeeds d 1 v1"
    and f2: "day_image_fetch_fails d 2 v2"
  shows "\<exists>r0 r1 e imageData.
      fst (FetchAndSaveWallpaper d 0 v0) = (Some r0, None)
      \<and> fst (FetchAndSaveWallpaper d 1 v1) = (Some r1, None)
      \<and> fst (FetchImageData (Client d) 2 v2) = Inr imageData
      \<and> fst (FetchRawImageData (Client d) imageData
                (snd (FetchImageData (Client d) 2 v2))) = Inl e
      \<and> fst (FetchAndSaveWallpaper d 2 v2)
          = (Some \<lparr>ImageData = imageData, ImagePath = [], JsonPath = [],
                    DownloadErr = Some e, JsonErr = None\<rparr>,
             Some (ImageDownloadFailed e))
      \<and> FetchAndSaveWallpapers d 5 False v0
        = Inr (([Some r0, Some r1], Some (DayFailed 2 (ImageDownloadFailed e))),
               snd (FetchAndSaveWallpaper d 2 v2))
      \<and> DownloadErr r0 = None \<and> DownloadErr r1 = None
      \<and> Some \<lparr>ImageData = imageData, ImagePath = [], JsonPath = [],
                DownloadErr = Some e, JsonErr = None\<rparr> \<notin> set [Some r0, Some r1]"
proof -
  from day_succeeds_FetchAndSaveWallpaper [OF s0] v1
  obtain r0 where r0: "FetchAndSaveWallpaper d 0 v0 = ((Some r0, None), v1)"
    and p0: "DownloadErr r0 = None"
    by auto
  from day_succeeds_FetchAndSaveWallpaper [OF s1] v2
  obtain r1 where r1: "FetchAndSaveWallpaper d 1 v1 = ((Some r1, None), v2)"
    and p1: "DownloadErr r1 = None"
    by auto
  let ?partial = "\<lambda>m e. \<lparr>ImageData = m, ImagePath = [], JsonPath = [],
                            DownloadErr = Some e, JsonErr = None\<rparr>"
  from day_image_fetch_fails_FetchAndSaveWallpaper [OF f2]
  obtain imageData e where m: "fst (FetchImageData (Client d) 2 v2) = Inr imageData"
    and e: "fst (FetchRawImageData (Client d) imageData
              (snd (FetchImageData (Client d) 2 v2))) = Inl e"
    and r2: "FetchAndSaveWallpaper d 2 v2 =
      ((Some (?partial imageData e), Some (ImageDownloadFailed e)),
       snd (FetchAndSaveWallpaper d 2 v2))"
    by blast
  from r1 have r1': "FetchAndSaveWallpaper d (0 + 1) v1 = ((Some r1, None), v2)"
    by simp
  from r2 have r2': "FetchAndSaveWallpaper d (0 + 1 + 1) v2 =
      ((Some (?partial imageData e), Some (ImageDownloadFailed e)),
       snd (FetchAndSaveWallpaper d 2 v2))"
    by simp
  have "FetchAndSaveWallpapers_loop d 5 False 0 [] None v0
      = FetchAndSaveWallpapers_loop d 5 False (0 + 1) ([] @ [Some r0]) None v1"
    by (rule FetchAndSaveWallpapers_loop_ok [OF _ r0]) simp
  also have "\<dots> = FetchAndSaveWallpapers_loop d 5 False (0 + 1 + 1)
      (([] @ [Some r0]) @ [Some r1]) None v2"
    by (rule FetchAndSaveWallpapers_loop_ok [OF _ r1']) simp
  also have "\<dots> = (((([] @ [Some r0]) @ [Some r1]),
      Some (DayFailed (0 + 1 + 1) (ImageDownloadFailed e))),
      snd (FetchAndSaveWallpaper d 2 v2))"
    by (rule FetchAndSaveWallpapers_loop_stop [OF _ r2']) simp
  finally have run: "FetchAndSaveWallpapers d 5 False v0
      = Inr (([Some r0, Some r1], Some (DayFailed 2 (ImageDownloadFailed e))),
             snd (FetchAndSaveWallpaper d 2 v2))"
    by (simp add: FetchAndSaveWallpapers_def)
  from r0 have a0: "fst (FetchAndSaveWallpaper d 0 v0) = (Some r0, None)"
    by simp
  from r1 have a1: "fst (FetchAndSaveWallpaper d 1 v1) = (Some r1, None)"
    by simp
  from r2 have a2: "fst (FetchAndSaveWallpaper d 2 v2)
      = (Some (?partial imageData e), Some (ImageDownloadFailed e))"
    by (metis fst_conv)
  from p0 p1 have n: "Some (?partial imageData e) \<notin> set [Some r0, Some r1]"
    by auto
  from a0 a1 m e a2 run p0 p1 n show ?thesis by blast
qed

section \<open>Stopping at the first error\<close>

text \<open>
  C1, as the code has it. A batch of five records is processed with
  \<open>continueOnError = false\<close>; the first two records get through their image stages and
  the image fetch of the third fails with the error \<open>e\<close>. Then \<open>SaveWallpapers\<close> returns a
  list of exactly two results: the result \<open>SaveWallpaper\<close> returned for the first record
  and the result it returned for the second, each with its record, its image path and
  no download error. With the list comes the error \<open>e\<close> of the third record, wrapped
  with its index. The partly filled result that \<open>SaveWallpaper\<close> returned for the third
  record is not in the list: the loop returns before it appends.
  \<open>FetchAndSaveWallpapers\<close> with five days does the same when the first two days succeed
  and the image fetch of the third day fails: its list is the two results that
  \<open>FetchAndSaveWallpaper\<close> returned for the days 0 and 1.
\<close>

theorem first_error_stops_batch_without_failed_result:
  "(w1 = snd (SaveWallpaper d m0 0 w0) \<and> w2 = snd (SaveWallpaper d m1 1 w1)
      \<and> image_stages_succeed d m0 w0 \<and> image_stages_succeed d m1 w1
      \<and> image_fetch_fails d m2 w2
    \<longrightarrow> (\<exists>r0 r1 e.
          fst (SaveWallpaper d m0 0 w0) = (Some r0, None)
          \<and> fst (SaveWallpaper d m1 1 w1) = (Some r1, None)
          \<and> fst (FetchRawImageData (Client d) m2 w2) = Inl e
          \<and> fst (SaveWallpaper d m2 2 w2)
              = (Some \<lparr>ImageData = m2, ImagePath = [], JsonPath = [],
                        DownloadErr = Some e, JsonErr = None\<rparr>,
                 Some (ImageDownloadFailed e))
          \<and> SaveWallpapers d [m0, m1, m2, m3, m4] False w0
            = (([Some r0, Some r1], Some (WallpaperFailed 2 (ImageDownloadFailed e))),
               snd (SaveWallpaper d m2 2 w2))
          \<and> ImageData r0 = m0 \<and> DownloadErr r0 = None
          \<and> ImagePath r0 = GenerateImageFilename (Generator (ImageStorage d)) m0
                              (OutputDir (ImageStorage d))
          \<and> ImageData r1 = m1 \<and> DownloadErr r1 = None
          \<and> ImagePath r1 = GenerateImageFilename (Generator (ImageStorage d)) m1
                              (OutputDir (ImageStorage d))
          \<and> Some \<lparr>ImageData = m2, ImagePath = [], JsonPath = [],
                    DownloadErr = Some e, JsonErr = None\<rparr> \<notin> set [Some r0, Some r1]))
   \<and> (v1 = snd (FetchAndSaveWallpaper d 0 v0) \<and> v2 = snd (FetchAndSaveWallpaper d 1 v1)
      \<and> day_succeeds d 0 v0 \<and> day_succeeds d 1 v1 \<and> day_image_fetch_fails d 2 v2
    \<longrightarrow> (\<exists>r0 r1 e imageData.
          fst (FetchAndSaveWallpaper d 0 v0) = (Some r0, None)
          \<and> fst (FetchAndSaveWallpaper d 1 v1) = (Some r1, None)
          \<and> fst (FetchImageData (Client d) 2 v2) = Inr imageData
          \<and> fst (FetchRawImageData (Client d) imageData
                    (snd (FetchImageData (Client d) 2 v2))) = Inl e
          \<and> fst (FetchAndSaveWallpaper d 2 v2)
              = (Some \<lparr>ImageData = imageData, ImagePath = [], JsonPath = [],
                        DownloadErr = Some e, JsonErr = None\<rparr>,
                 Some (ImageDownloadFailed e))
          \<and> FetchAndSaveWallpapers d 5 False v0
            = Inr (([Some r0, Some r1], Some (DayFailed 2 (ImageDownloadFailed e))),
                   snd (FetchAndSaveWallpaper d 2 v2))
          \<and> DownloadErr r0 = None \<and> DownloadErr r1 = None
          \<and> Some \<lparr>ImageData = imageData, ImagePath = [], JsonPath = [],
                    DownloadErr = Some e, JsonErr = None\<rparr> \<notin> set [Some r0, Some r1]))"
  using SaveWallpapers_first_error [of w1 d m0 w0 w2 m1 m2 m3 m4]
    FetchAndSaveWallpapers_first_error [of v1 d v0 v2]
  by blast

theorem first_error_stops_batch_without_failed_result_witness:
  "(image_stages_succeed (ex_downloader False) (ex_image ''0'') ex1_w0
    \<and> image_stages_succeed (ex_downloader False) (ex_image ''1'') ex1_w1
    \<and> image_fetch_fails (ex_downloader False) (ex_image ''2'') ex1_w2)
   \<and> SaveWallpapers (ex_downloader False)
        [ex_image ''0'', ex_image ''1'', ex_image ''2'', ex_image ''3'', ex_image ''4'']
        False ex1_w0
      = (([Some \<lparr>ImageData = ex_image ''0'', ImagePath = ''/out/20240110_Day_0.jpg'',
                  JsonPath = [], DownloadErr = None, JsonErr = None\<rparr>,
           Some \<lparr>ImageData = ex_image ''1'', ImagePath = ''/out/20240111_Day_1.jpg'',
                  JsonPath = [], DownloadErr = None, JsonErr = None\<rparr>],
          Some (WallpaperFailed 2 (ImageDownloadFailed (RequestFailed (Opaque ''timeout''))))),
         snd (SaveWallpaper (ex_downloader False) (ex_image ''2'') 2 ex1_w2))
   \<and> fst (SaveWallpaper (ex_downloader False) (ex_image ''2'') 2 ex1_w2)
      = (Some \<lparr>ImageData = ex_image ''2'', ImagePath = [], JsonPath = [],
                DownloadErr = Some (RequestFailed (Opaque ''timeout'')), JsonErr = None\<rparr>,
         Some (ImageDownloadFailed (RequestFailed (Opaque ''timeout''))))
   \<and> (day_succeeds (ex_downloader False) 0 ex1_w0
      \<and> day_succeeds (ex_downloader False) 1 ex1_v1
      \<and> day_image_fetch_fails (ex_downloader False) 2 ex1_v2)
   \<and> FetchAndSaveWallpapers (ex_downloader False) 5 False ex1_w0
      = Inr (([Some \<lparr>ImageData = ex_image ''0'', ImagePath = ''/out/20240110_Day_0.jpg'',
                      JsonPath = [], DownloadErr = None, JsonErr = None\<rparr>,
               Some \<lparr>ImageData = ex_image ''1'', ImagePath = ''/out/20240111_Day_1.jpg'',
                      JsonPath = [], DownloadErr = None, JsonErr = None\<rparr>],
              Some (DayFailed 2 (ImageDownloadFailed (RequestFailed (Opaque ''timeout''))))),
             snd (FetchAndSaveWallpaper (ex_downloader False) 2 ex1_v2))"
proof -
  let ?d = "ex_downloader False"
  let ?r0 = "\<lparr>ImageData = ex_image ''0'', ImagePath = ''/out/20240110_Day_0.jpg'',
               JsonPath = [], DownloadErr = None, JsonErr = None\<rparr>"
  let ?r1 = "\<lparr>ImageData = ex_image ''1'', ImagePath = ''/out/20240111_Day_1.jpg'',
               JsonPath = [], DownloadErr = None, JsonErr = None\<rparr>"
  let ?e = "RequestFailed (Opaque ''timeout'')"
  have a0: "image_stages_succeed ?d (ex_image ''0'') ex1_w0"
    by code_simp
  have a1: "image_stages_succeed ?d (ex_image ''1'') ex1_w1"
    by code_simp
  have a2: "image_fetch_fails ?d (ex_image ''2'') ex1_w2"
    by code_simp
  have b0: "day_succeeds ?d 0 ex1_w0"
    by code_simp
  have b1: "day_succeeds ?d 1 ex1_v1"
    by code_simp
  have b2: "day_image_fetch_fails ?d 2 ex1_v2"
    by code_simp
  have c0: "fst (SaveWallpaper ?d (ex_image ''0'') 0 ex1_w0) = (Some ?r0, None)"
    by code_simp
  have c1: "fst (SaveWallpaper ?d (ex_image ''1'') 1 ex1_w1) = (Some ?r1, None)"
    by code_simp
  have c2: "fst (FetchRawImageData (Client ?d) (ex_image ''2'') ex1_w2) = Inl ?e"
    by code_simp
  have d0: "fst (FetchAndSaveWallpaper ?d 0 ex1_w0) = (Some ?r0, None)"
    by code_simp
  have d1: "fst (FetchAndSaveWallpaper ?d 1 ex1_v1) = (Some ?r1, None)"
    by code_simp
  have d2: "fst (FetchAndSaveWallpaper ?d 2 ex1_v2)
      = (Some \<lparr>ImageData = ex_image ''2'', ImagePath = [], JsonPath = [],
                DownloadErr = Some ?e, JsonErr = None\<rparr>, Some (ImageDownloadFailed ?e))"
    by code_simp
  note t = first_error_stops_batch_without_failed_result
      [where d = ?d and ?w0.0 = ex1_w0 and ?w1.0 = ex1_w1
         and ?w2.0 = ex1_w2 and ?m0.0 = "ex_image ''0''" and ?m1.0 = "ex_image ''1''"
         and ?m2.0 = "ex_image ''2''" and ?m3.0 = "ex_image ''3''"
         and ?m4.0 = "ex_image ''4''" and ?v0.0 = ex1_w0 and ?v1.0 = ex1_v1
         and ?v2.0 = ex1_v2]
  from t [THEN conjunct1] a0 a1 a2 ex1_w1_def ex1_w2_def
  obtain r0 r1 e where "fst (SaveWallpaper ?d (ex_image ''0'') 0 ex1_w0) = (Some r0, None)"
    and "fst (SaveWallpaper ?d (ex_image ''1'') 1 ex1_w1) = (Some r1, None)"
    and "fst (FetchRawImageData (Client ?d) (ex_image ''2'') ex1_w2) = Inl e"
    and p: "fst (SaveWallpaper ?d (ex_image ''2'') 2 ex1_w2)
        = (Some \<lparr>ImageData = ex_image ''2'', ImagePath = [], JsonPath = [],
                  DownloadErr = Some e, JsonErr = None\<rparr>, Some (ImageDownloadFailed e))"
    and "SaveWallpapers ?d
        [ex_image ''0'', ex_image ''1'', ex_image ''2'', ex_image ''3'', ex_image ''4'']
        False ex1_w0
      = (([Some r0, Some r1], Some (WallpaperFailed 2 (ImageDownloadFailed e))),
         snd (SaveWallpaper ?d (ex_image ''2'') 2 ex1_w2))"
    by blast
  with c0 c1 c2 have batch: "SaveWallpapers ?d
        [ex_image ''0'', ex_image ''1'', ex_image ''2'', ex_image ''3'', ex_image ''4'']
        False ex1_w0
      = (([Some ?r0, Some ?r1], Some (WallpaperFailed 2 (ImageDownloadFailed ?e))),
         snd (SaveWallpaper ?d (ex_image ''2'') 2 ex1_w2))"
    and partial: "fst (SaveWallpaper ?d (ex_image ''2'') 2 ex1_w2)
        = (Some \<lparr>ImageData = ex_image ''2'', ImagePath = [], JsonPath = [],
                  DownloadErr = Some ?e, JsonErr = None\<rparr>, Some (ImageDownloadFailed ?e))"
    by simp_all
  from t [THEN conjunct2] b0 b1 b2 ex1_v1_def ex1_v2_def
  obtain q0 q1 e' where "fst (FetchAndSaveWallpaper ?d 0 ex1_w0) = (Some q0, None)"
    and "fst (FetchAndSaveWallpaper ?d 1 ex1_v1) = (Some q1, None)"
    and "\<exists>imageData. fst (FetchAndSaveWallpaper ?d 2 ex1_v2)
        = (Some \<lparr>ImageData = imageData, ImagePath = [], JsonPath = [],
                  DownloadErr = Some e', JsonErr = None\<rparr>, Some (ImageDownloadFailed e'))"
    and "FetchAndSaveWallpapers ?d 5 False ex1_w0
      = Inr (([Some q0, Some q1], Some (DayFailed 2 (ImageDownloadFailed e'))),
             snd (FetchAndSaveWallpaper ?d 2 ex1_v2))"
    by blast
  with d0 d1 d2 have days: "FetchAndSaveWallpapers ?d 5 False ex1_w0
      = Inr (([Some ?r0, Some ?r1], Some (DayFailed 2 (ImageDownloadFailed ?e))),
             snd (FetchAndSaveWallpaper ?d 2 ex1_v2))"
    by auto
  from a0 a1 a2 batch partial b0 b1 b2 days show ?thesis by blast
qed

text \<open>
  The run of the first scenario shows the same on values: two results come back, and
  the result of the failing record, with its download error set, is not among them.
\<close>

theorem failed_result_in_list_counterexample:
  "image_stages_succeed (ex_downloader False) (ex_image ''0'') ex1_w0
   \<and> image_stages_succeed (ex_downloader False) (ex_image ''1'') ex1_w1
   \<and> image_fetch_fails (ex_downloader False) (ex_image ''2'') ex1_w2
   \<and> length (fst (fst (SaveWallpapers (ex_downloader False)
        [ex_image ''0'', ex_image ''1'', ex_image ''2'', ex_image ''3'', ex_image ''4'']
        False ex1_w0))) = 2
   \<and> fst (fst (SaveWallpaper (ex_downloader False) (ex_image ''2'') 2 ex1_w2))
       = Some \<lparr>ImageData = ex_image ''2'', ImagePath = [], JsonPath = [],
                DownloadErr = Some (RequestFailed (Opaque ''timeout'')), JsonErr = None\<rparr>
   \<and> fst (fst (SaveWallpaper (ex_downloader False) (ex_image ''2'') 2 ex1_w2))
       \<notin> set (fst (fst (SaveWallpapers (ex_downloader False)
             [ex_image ''0'', ex_image ''1'', ex_image ''2'', ex_image ''3'', ex_image ''4'']
             False ex1_w0)))"
  by code_simp

lemma pair_fst_snd: "fst x = a \<Longrightarrow> x = (a, snd x)"
  by auto

lemma sendRequest_history:
  "history (snd (sendRequest c method url w)) =
     (case http_NewRequest w method url of
        Inl err \<Rightarrow> history w
      | Inr reqURL \<Rightarrow> history w @ [HttpDo method reqURL (userAgent c)])"
  by (simp add: sendRequest_def record_event_def Let_def
      split: option.split sum.split prod.split)

section \<open>The range of the day count\<close>

text \<open>
  C2. For a day count below 1 or above 16, \<open>FetchMultipleImageData\<close> and
  \<open>DownloadLatestWallpapers\<close> return the range error and the world they were given, so
  its history is what it was: no request was made (every request that reaches the
  transport is recorded in the history, lemma \<open>sendRequest_history\<close>).
\<close>

theorem days_out_of_range_rejected:
  assumes "days < 1 \<or> 16 < days"
  shows "FetchMultipleImageData c days w = (Inl (DaysOutOfRange days), w)
    \<and> DownloadLatestWallpapers d days continueOnError w = (([], Some (DaysOutOfRange days)), w)
    \<and> history (snd (FetchMultipleImageData c days w)) = history w
    \<and> history (snd (DownloadLatestWallpapers d days continueOnError w)) = history w"
  using assms by (auto simp: FetchMultipleImageData_def DownloadLatestWallpapers_def)

theorem days_out_of_range_rejected_witness:
  "((17::int) < 1 \<or> 16 < (17::int)) \<and> ((0::int) < 1 \<or> 16 < (0::int))
   \<and> FetchMultipleImageData ex_client 17 (ex_world [] [])
       = (Inl (DaysOutOfRange 17), ex_world [] [])
   \<and> DownloadLatestWallpapers (ex_downloader True) 17 True (ex_world [] [])
       = (([], Some (DaysOutOfRange 17)), ex_world [] [])
   \<and> FetchMultipleImageData ex_client 0 (ex_world [] [])
       = (Inl (DaysOutOfRange 0), ex_world [] [])
   \<and> DownloadLatestWallpapers (ex_downloader True) 0 True (ex_world [] [])
       = (([], Some (DaysOutOfRange 0)), ex_world [] [])
   \<and> history (snd (DownloadLatestWallpapers (ex_downloader True) 0 True (ex_world [] []))) = []"
proof -
  have h17: "(17::int) < 1 \<or> 16 < (17::int)" and h0: "(0::int) < 1 \<or> 16 < (0::int)"
    by simp_all
  have e: "history (ex_world [] []) = []"
    by (simp add: ex_world_def)
  from days_out_of_range_rejected [OF h17, of ex_client "ex_world [] []" "ex_downloader True" True]
    days_out_of_range_rejected [OF h0, of ex_client "ex_world [] []" "ex_downloader True" True]
    h17 h0 e
  show ?thesis by simp
qed

section \<open>One record: the image decides, the JSON does not\<close>

text \<open>
  C4. When the JSON is to be saved and the image of a record has been fetched and saved,
  a failure of the JSON fetch, or of the JSON save after a JSON fetch that worked, is
  recorded in \<open>JsonErr\<close>; \<open>JsonPath\<close> stays empty, the image path is kept, and
  \<open>SaveWallpaper\<close> returns the result with a \<open>nil\<close> error.
\<close>

theorem json_failure_is_not_fatal:
  assumes "SaveJsonData d"
    and "FetchRawImageData (Client d) imageData w = (Inr imageBytes, w1)"
    and "SaveImage (ImageStorage d) imageBytes imageData w1 = (Inr imagePath, w2)"
    and "FetchRawJsonData (Client d) (GetBingApiURL (Client d) daysAgo 1) w2 = (Inl e, w3)
         \<or> (\<exists>jsonBytes w2'.
               FetchRawJsonData (Client d) (GetBingApiURL (Client d) daysAgo 1) w2
                 = (Inr jsonBytes, w2')
               \<and> SaveJson (ImageStorage d) jsonBytes imageData w2' = (Inl e, w3))"
  shows "SaveWallpaper d imageData daysAgo w =
          ((Some \<lparr>ImageData = imageData, ImagePath = imagePath, JsonPath = [],
                   DownloadErr = None, JsonErr = Some e\<rparr>, None), w3)"
  using assms by (auto simp: SaveWallpaper_def)

theorem json_failure_is_not_fatal_witness:
  "SaveJsonData (ex_downloader True)
   \<and> fst (FetchRawImageData (Client (ex_downloader True)) (ex_image ''0'') ex2_w0)
       = Inr ''https://www.bing.com/th?id=0''
   \<and> fst (SaveImage (ImageStorage (ex_downloader True)) ''https://www.bing.com/th?id=0''
             (ex_image ''0'') ex2_w1) = Inr ''/out/20240110_Day_0.jpg''
   \<and> fst (FetchRawJsonData (Client (ex_downloader True))
             (GetBingApiURL (Client (ex_downloader True)) 0 1) ex2_w2)
       = Inl (RequestFailed (Opaque ''timeout''))
   \<and> SaveWallpaper (ex_downloader True) (ex_image ''0'') 0 ex2_w0
       = ((Some \<lparr>ImageData = ex_image ''0'', ImagePath = ''/out/20240110_Day_0.jpg'',
                  JsonPath = [], DownloadErr = None,
                  JsonErr = Some (RequestFailed (Opaque ''timeout''))\<rparr>, None), ex2_w3)
   \<and> fst (FetchRawJsonData (Client (ex_downloader True))
             (GetBingApiURL (Client (ex_downloader True)) 0 1) ex3_w2)
       = Inr ''http://api?format=js&n=1&idx=0&mkt=en-US''
   \<and> fst (SaveJson (ImageStorage (ex_downloader True))
             ''http://api?format=js&n=1&idx=0&mkt=en-US'' (ex_image ''0'') ex3_w3)
       = Inl (WriteFileFailed (Opaque ''no space left on device''))
   \<and> SaveWallpaper (ex_downloader True) (ex_image ''0'') 0 ex3_w0
       = ((Some \<lparr>ImageData = ex_image ''0'', ImagePath = ''/out/20240110_Day_0.jpg'',
                  JsonPath = [], DownloadErr = None,
                  JsonErr = Some (WriteFileFailed (Opaque ''no space left on device''))\<rparr>,
           None), ex3_w4)"
proof -
  let ?d = "ex_downloader True" and ?m = "ex_image ''0''"
  have j: "SaveJsonData ?d"
    by code_simp
  have a1: "fst (FetchRawImageData (Client ?d) ?m ex2_w0) = Inr ''https://www.bing.com/th?id=0''"
    by code_simp
  have a2: "fst (SaveImage (ImageStorage ?d) ''https://www.bing.com/th?id=0'' ?m ex2_w1)
      = Inr ''/out/20240110_Day_0.jpg''"
    by code_simp
  have a3: "fst (FetchRawJsonData (Client ?d) (GetBingApiURL (Client ?d) 0 1) ex2_w2)
      = Inl (RequestFailed (Opaque ''timeout''))"
    by code_simp
  have a: "SaveWallpaper ?d ?m 0 ex2_w0
      = ((Some \<lparr>ImageData = ?m, ImagePath = ''/out/20240110_Day_0.jpg'',
                 JsonPath = [], DownloadErr = None,
                 JsonErr = Some (RequestFailed (Opaque ''timeout''))\<rparr>, None), ex2_w3)"
    by (rule json_failure_is_not_fatal [OF j
          pair_fst_snd [OF a1, folded ex2_w1_def]
          pair_fst_snd [OF a2, folded ex2_w2_def]
          disjI1 [OF pair_fst_snd [OF a3, folded ex2_w3_def]]])
  have b1: "fst (FetchRawImageData (Client ?d) ?m ex3_w0) = Inr ''https://www.bing.com/th?id=0''"
    by code_simp
  have b2: "fst (SaveImage (ImageStorage ?d) ''https://www.bing.com/th?id=0'' ?m ex3_w1)
      = Inr ''/out/20240110_Day_0.jpg''"
    by code_simp
  have b3: "fst (FetchRawJsonData (Client ?d) (GetBingApiURL (Client ?d) 0 1) ex3_w2)
      = Inr ''http://api?format=js&n=1&idx=0&mkt=en-US''"
    by code_simp
  have b4: "fst (SaveJson (ImageStorage ?d) ''http://api?format=js&n=1&idx=0&mkt=en-US'' ?m
      ex3_w3) = Inl (WriteFileFailed (Opaque ''no space left on device''))"
    by code_simp
  have "\<exists>jsonBytes w2'.
      FetchRawJsonData (Client ?d) (GetBingApiURL (Client ?d) 0 1) ex3_w2 = (Inr jsonBytes, w2')
      \<and> SaveJson (ImageStorage ?d) jsonBytes ?m w2'
          = (Inl (WriteFileFailed (Opaque ''no space left on device'')), ex3_w4)"
    using pair_fst_snd [OF b3, folded ex3_w3_def] pair_fst_snd [OF b4, folded ex3_w4_def]
    by blast
  then have b: "SaveWallpaper ?d ?m 0 ex3_w0
      = ((Some \<lparr>ImageData = ?m, ImagePath = ''/out/20240110_Day_0.jpg'',
                 JsonPath = [], DownloadErr = None,
                 JsonErr = Some (WriteFileFailed (Opaque ''no space left on device''))\<rparr>,
          None), ex3_w4)"
    by (rule json_failure_is_not_fatal [OF j
          pair_fst_snd [OF b1, folded ex3_w1_def]
          pair_fst_snd [OF b2, folded ex3_w2_def] disjI2])
  from j a1 a2 a3 a b3 b4 b show ?thesis by blast
qed

text \<open>
  C10, as the code has it. \<open>SaveWallpaper\<close> always returns a result, and its error is
  \<open>nil\<close> exactly when the result's \<open>DownloadErr\<close> is \<open>nil\<close>. With a \<open>nil\<close> error the
  image was fetched and \<open>SaveImage\<close> returned the path that is now the result's
  \<open>ImagePath\<close>: the path the storage's filename generator gave for the record. That path
  is not empty whenever the generator's path for the record is not empty, and the
  default generator never gives the empty path. With an error, \<open>ImagePath\<close> is empty and
  \<open>DownloadErr\<close> is set.
\<close>

theorem SaveWallpaper_error_iff_DownloadErr:
  assumes "SaveWallpaper d imageData daysAgo w = ((result, err), w')"
  shows "\<exists>r. result = Some r
    \<and> (err = None \<longleftrightarrow> DownloadErr r = None)
    \<and> (err = None \<longrightarrow>
          (\<exists>imageBytes w1 w2.
              FetchRawImageData (Client d) imageData w = (Inr imageBytes, w1)
              \<and> SaveImage (ImageStorage d) imageBytes imageData w1 = (Inr (ImagePath r), w2))
          \<and> ImagePath r = GenerateImageFilename (Generator (ImageStorage d)) imageData
                            (OutputDir (ImageStorage d))
          \<and> (GenerateImageFilename (Generator (ImageStorage d)) imageData
                (OutputDir (ImageStorage d)) \<noteq> []
              \<longrightarrow> ImagePath r \<noteq> [])
          \<and> (GenerateImageFilename (Generator (ImageStorage d))
                = DefaultFilenameGenerator_GenerateImageFilename
              \<longrightarrow> ImagePath r \<noteq> []))
    \<and> (err \<noteq> None \<longrightarrow> ImagePath r = [] \<and> DownloadErr r \<noteq> None)"
proof (cases rule: SaveWallpaper_cases [of d imageData w])
  case (fetch_failed e w1)
  from SaveWallpaper_fetch_failed [OF this, of daysAgo] assms show ?thesis by auto
next
  case (save_failed b w1 e w2)
  from SaveWallpaper_save_failed [OF this, of daysAgo] assms show ?thesis by auto
next
  case (image_saved b w1 p w2)
  from SaveWallpaper_image_saved [OF this, of daysAgo] assms
  obtain jp je where r: "result = Some \<lparr>ImageData = imageData, ImagePath = p, JsonPath = jp,
                 DownloadErr = None, JsonErr = je\<rparr>" and "err = None"
    by auto
  from SaveImage_path [OF image_saved(2)]
  have p: "p = GenerateImageFilename (Generator (ImageStorage d)) imageData
      (OutputDir (ImageStorage d))" .
  then have "GenerateImageFilename (Generator (ImageStorage d))
      = DefaultFilenameGenerator_GenerateImageFilename \<Longrightarrow> p \<noteq> []"
    by (simp add: DefaultFilenameGenerator_GenerateImageFilename_not_Nil)
  with r p \<open>err = None\<close> image_saved show ?thesis by auto
qed

theorem SaveWallpaper_error_iff_DownloadErr_witness:
  "fst (SaveWallpaper (ex_downloader False) (ex_image ''0'') 0 ex1_w0)
     = (Some \<lparr>ImageData = ex_image ''0'', ImagePath = ''/out/20240110_Day_0.jpg'',
               JsonPath = [], DownloadErr = None, JsonErr = None\<rparr>, None)
   \<and> fst (SaveImage (ImageStorage (ex_downloader False)) ''https://www.bing.com/th?id=0''
            (ex_image ''0'')
            (snd (FetchRawImageData (Client (ex_downloader False)) (ex_image ''0'') ex1_w0)))
       = Inr ''/out/20240110_Day_0.jpg''
   \<and> GenerateImageFilename (Generator (ImageStorage (ex_downloader False)))
       = DefaultFilenameGenerator_GenerateImageFilename
   \<and> fst (SaveWallpaper (ex_downloader False) (ex_image ''2'') 2 ex1_w2)
       = (Some \<lparr>ImageData = ex_image ''2'', ImagePath = [], JsonPath = [],
                 DownloadErr = Some (RequestFailed (Opaque ''timeout'')), JsonErr = None\<rparr>,
          Some (ImageDownloadFailed (RequestFailed (Opaque ''timeout''))))
   \<and> (\<exists>r. fst (fst (SaveWallpaper (ex_downloader False) (ex_image ''0'') 0 ex1_w0)) = Some r
          \<and> DownloadErr r = None \<and> ImagePath r \<noteq> [])
   \<and> (\<exists>r. fst (fst (SaveWallpaper (ex_downloader False) (ex_image ''2'') 2 ex1_w2)) = Some r
          \<and> DownloadErr r \<noteq> None \<and> ImagePath r = [])"
proof -
  let ?d = "ex_downloader False"
  have a: "fst (SaveWallpaper ?d (ex_image ''0'') 0 ex1_w0)
      = (Some \<lparr>ImageData = ex_image ''0'', ImagePath = ''/out/20240110_Day_0.jpg'',
                JsonPath = [], DownloadErr = None, JsonErr = None\<rparr>, None)"
    by code_simp
  have s: "fst (SaveImage (ImageStorage ?d) ''https://www.bing.com/th?id=0'' (ex_image ''0'')
            (snd (FetchRawImageData (Client ?d) (ex_image ''0'') ex1_w0)))
       = Inr ''/out/20240110_Day_0.jpg''"
    by code_simp
  have g: "GenerateImageFilename (Generator (ImageStorage ?d))
      = DefaultFilenameGenerator_GenerateImageFilename"
    by (simp add: ex_downloader_def NewDownloader_def NewBingImageStorage_def
        NewDefaultFilenameGenerator_def)
  have b: "fst (SaveWallpaper ?d (ex_image ''2'') 2 ex1_w2)
      = (Some \<lparr>ImageData = ex_image ''2'', ImagePath = [], JsonPath = [],
                DownloadErr = Some (RequestFailed (Opaque ''timeout'')), JsonErr = None\<rparr>,
         Some (ImageDownloadFailed (RequestFailed (Opaque ''timeout''))))"
    by code_simp
  from SaveWallpaper_error_iff_DownloadErr [OF pair_fst_snd [OF a]] g
  have "\<exists>r. fst (fst (SaveWallpaper ?d (ex_image ''0'') 0 ex1_w0)) = Some r
      \<and> DownloadErr r = None \<and> ImagePath r \<noteq> []"
    using a by auto
  moreover from SaveWallpaper_error_iff_DownloadErr [OF pair_fst_snd [OF b]]
  have "\<exists>r. fst (fst (SaveWallpaper ?d (ex_image ''2'') 2 ex1_w2)) = Some r
      \<and> DownloadErr r \<noteq> None \<and> ImagePath r = []"
    using b by auto
  ultimately show ?thesis
    using a s g b by blast
qed

text \<open>
  With the generator of the fifth scenario and a storage that accepts the save,
  \<open>SaveImage\<close> returns the empty path without an error, and \<open>SaveWallpaper\<close> returns a
  \<open>nil\<close> error with the result's \<open>ImagePath\<close> empty.
\<close>

theorem SaveWallpaper_empty_ImagePath_counterexample:
  "fst (FetchRawImageData (Client (ex_stub_downloader [])) (ex_image ''0'') (ex_world [] []))
     = Inr ''https://www.bing.com/th?id=0''
   \<and> fst (SaveImage (ImageStorage (ex_stub_downloader [])) ''https://www.bing.com/th?id=0''
            (ex_image ''0'')
            (snd (FetchRawImageData (Client (ex_stub_downloader [])) (ex_image ''0'')
                    (ex_world [] []))))
       = Inr []
   \<and> fst (SaveWallpaper (ex_stub_downloader []) (ex_image ''0'') 0 (ex_world [] []))
       = (Some \<lparr>ImageData = ex_image ''0'', ImagePath = [], JsonPath = [],
                 DownloadErr = None, JsonErr = None\<rparr>, None)"
  by code_simp

section \<open>Continuing after an error\<close>

lemma SaveWallpapers_loop_done:
  "SaveWallpapers_loop d True i [] results (Some e) w = ((results, Some (PartialFailure e)), w)"
  by simp

lemma SaveWallpapers_save_failure_at_2:
  assumes w1: "w1 = snd (SaveWallpaper d m0 0 w0)"
    and w2: "w2 = snd (SaveWallpaper d m1 1 w1)"
    and w3: "w3 = snd (SaveWallpaper d m2 2 w2)"
    and w4: "w4 = snd (SaveWallpaper d m3 3 w3)"
    and s0: "image_stages_succeed d m0 w0"
    and s1: "image_stages_succeed d m1 w1"
    and f2: "image_save_fails d m2 w2"
    and s3: "image_stages_succeed d m3 w3"
    and s4: "image_stages_succeed d m4 w4"
  shows "\<exists>j0 e0 j1 e1 e j3 e3 j4 e4.
      SaveWallpapers d [m0, m1, m2, m3, m4] True w0 =
        (([Some \<lparr>ImageData = m0,
                  ImagePath = GenerateImageFilename (Generator (ImageStorage d)) m0
                                (OutputDir (ImageStorage d)),
                  JsonPath = j0, DownloadErr = None, JsonErr = e0\<rparr>,
           Some \<lparr>ImageData = m1,
                  ImagePath = GenerateImageFilename (Generator (ImageStorage d)) m1
                                (OutputDir (ImageStorage d)),
                  JsonPath = j1, DownloadErr = None, JsonErr = e1\<rparr>,
           Some \<lparr>ImageData = m2, ImagePath = [], JsonPath = [],
                  DownloadErr = Some e, JsonErr = None\<rparr>,
           Some \<lparr>ImageData = m3,
                  ImagePath = GenerateImageFilename (Generator (ImageStorage d)) m3
                                (OutputDir (ImageStorage d)),
                  JsonPath = j3, DownloadErr = None, JsonErr = e3\<rparr>,
           Some \<lparr>ImageData = m4,
                  ImagePath = GenerateImageFilename (Generator (ImageStorage d)) m4
                                (OutputDir (ImageStorage d)),
                  JsonPath = j4, DownloadErr = None, JsonErr = e4\<rparr>],
          Some (PartialFailure (WallpaperFailed 2 (ImageSaveFailed e)))),
         snd (SaveWallpaper d m4 4 w4))
      \<and> SaveWallpapers d [m0, m1, m2, m3, m4] True w0 =
        (([fst (fst (SaveWallpaper d m0 0 w0)), fst (fst (SaveWallpaper d m1 1 w1)),
           fst (fst (SaveWallpaper d m2 2 w2)), fst (fst (SaveWallpaper d m3 3 w3)),
           fst (fst (SaveWallpaper d m4 4 w4))],
          Some (PartialFailure (WallpaperFailed 2 (ImageSaveFailed e)))),
         snd (SaveWallpaper d m4 4 w4))
      \<and> snd (fst (SaveWallpaper d m2 2 w2)) = Some (ImageSaveFailed e)"
proof -
  let ?p = "\<lambda>m. GenerateImageFilename (Generator (ImageStorage d)) m (OutputDir (ImageStorage d))"
  let ?ok = "\<lambda>m j e. Some \<lparr>ImageData = m, ImagePath = ?p m, JsonPath = j,
                              DownloadErr = None, JsonErr = e\<rparr>"
  let ?w5 = "snd (SaveWallpaper d m4 4 w4)"
  from image_stages_succeed_SaveWallpaper [OF s0, of 0] w1
  obtain j0 e0 where r0: "SaveWallpaper d m0 (int 0) w0 = ((?ok m0 j0 e0, None), w1)"
    by auto
  from image_stages_succeed_SaveWallpaper [OF s1, of 1] w2
  obtain j1 e1 where r1: "SaveWallpaper d m1 (int (0 + 1)) w1 = ((?ok m1 j1 e1, None), w2)"
    by auto
  from image_save_fails_SaveWallpaper [OF f2, of 2] w3
  obtain e where r2: "SaveWallpaper d m2 (int (0 + 1 + 1)) w2 =
      ((Some \<lparr>ImageData = m2, ImagePath = [], JsonPath = [],
               DownloadErr = Some e, JsonErr = None\<rparr>,
        Some (ImageSaveFailed e)), w3)"
    by auto
  from image_stages_succeed_SaveWallpaper [OF s3, of 3] w4
  obtain j3 e3 where r3: "SaveWallpaper d m3 (int (0 + 1 + 1 + 1)) w3
      = ((?ok m3 j3 e3, None), w4)"
    by auto
  from image_stages_succeed_SaveWallpaper [OF s4, of 4]
  obtain j4 e4 where r4: "SaveWallpaper d m4 (int (0 + 1 + 1 + 1 + 1)) w4
      = ((?ok m4 j4 e4, None), ?w5)"
    by auto
  let ?r2 = "Some \<lparr>ImageData = m2, ImagePath = [], JsonPath = [],
                    DownloadErr = Some e, JsonErr = None\<rparr>"
  let ?last = "Some (WallpaperFailed (int (0 + 1 + 1)) (ImageSaveFailed e))"
  have "SaveWallpapers d [m0, m1, m2, m3, m4] True w0
      = SaveWallpapers_loop d True (0 + 1) [m1, m2, m3, m4] ([] @ [?ok m0 j0 e0]) None w1"
    unfolding SaveWallpapers_def by (rule SaveWallpapers_loop_ok [OF r0])
  also have "\<dots> = SaveWallpapers_loop d True (0 + 1 + 1) [m2, m3, m4]
      (([] @ [?ok m0 j0 e0]) @ [?ok m1 j1 e1]) None w2"
    by (rule SaveWallpapers_loop_ok [OF r1])
  also have "\<dots> = SaveWallpapers_loop d True (0 + 1 + 1 + 1) [m3, m4]
      ((([] @ [?ok m0 j0 e0]) @ [?ok m1 j1 e1]) @ [?r2]) ?last w3"
    by (rule SaveWallpapers_loop_continue [OF r2])
  also have "\<dots> = SaveWallpapers_loop d True (0 + 1 + 1 + 1 + 1) [m4]
      (((([] @ [?ok m0 j0 e0]) @ [?ok m1 j1 e1]) @ [?r2]) @ [?ok m3 j3 e3]) ?last w4"
    by (rule SaveWallpapers_loop_ok [OF r3])
  also have "\<dots> = SaveWallpapers_loop d True (0 + 1 + 1 + 1 + 1 + 1) []
      ((((([] @ [?ok m0 j0 e0]) @ [?ok m1 j1 e1]) @ [?r2]) @ [?ok m3 j3 e3]) @ [?ok m4 j4 e4])
      ?last ?w5"
    by (rule SaveWallpapers_loop_ok [OF r4])
  also have "\<dots> = ((((((([] @ [?ok m0 j0 e0]) @ [?ok m1 j1 e1]) @ [?r2]) @ [?ok m3 j3 e3])
      @ [?ok m4 j4 e4]),
      Some (PartialFailure (WallpaperFailed (int (0 + 1 + 1)) (ImageSaveFailed e)))), ?w5)"
    by (rule SaveWallpapers_loop_done)
  finally have run: "SaveWallpapers d [m0, m1, m2, m3, m4] True w0
      = (([?ok m0 j0 e0, ?ok m1 j1 e1, ?r2, ?ok m3 j3 e3, ?ok m4 j4 e4],
          Some (PartialFailure (WallpaperFailed 2 (ImageSaveFailed e)))), ?w5)"
    by simp
  from arg_cong [OF r0, of "\<lambda>x. fst (fst x)"]
  have q0: "fst (fst (SaveWallpaper d m0 0 w0)) = ?ok m0 j0 e0"
    by simp
  from arg_cong [OF r1, of "\<lambda>x. fst (fst x)"]
  have q1: "fst (fst (SaveWallpaper d m1 1 w1)) = ?ok m1 j1 e1"
    by simp
  from arg_cong [OF r2, of "\<lambda>x. fst (fst x)"]
  have q2: "fst (fst (SaveWallpaper d m2 2 w2)) = ?r2"
    by simp
  from arg_cong [OF r3, of "\<lambda>x. fst (fst x)"]
  have q3: "fst (fst (SaveWallpaper d m3 3 w3)) = ?ok m3 j3 e3"
    by simp
  from arg_cong [OF r4, of "\<lambda>x. fst (fst x)"]
  have q4: "fst (fst (SaveWallpaper d m4 4 w4)) = ?ok m4 j4 e4"
    by simp
  from arg_cong [OF r2, of "\<lambda>x. snd (fst x)"]
  have e: "snd (fst (SaveWallpaper d m2 2 w2)) = Some (ImageSaveFailed e)"
    by simp
  from run have "SaveWallpapers d [m0, m1, m2, m3, m4] True w0 =
        (([fst (fst (SaveWallpaper d m0 0 w0)), fst (fst (SaveWallpaper d m1 1 w1)),
           fst (fst (SaveWallpaper d m2 2 w2)), fst (fst (SaveWallpaper d m3 3 w3)),
           fst (fst (SaveWallpaper d m4 4 w4))],
          Some (PartialFailure (WallpaperFailed 2 (ImageSaveFailed e)))), ?w5)"
    by (simp only: q0 q1 q2 q3 q4)
  with run e show ?thesis by blast
qed

text \<open>
  C3, as the code has it. A batch of five records is processed with
  \<open>continueOnError = true\<close>; the image stages of the records at the indices 0, 1, 3 and
  4 succeed and the image save of the record at index 2 fails. Then the returned list
  has five results, the ones \<open>SaveWallpaper\<close> returned for the five records, in their
  order; the one at index 2 has a download error and an empty image path;
  each of the others has no download error and, as its image path, the path the
  storage's filename generator gave for its record; and the error returned with the
  list is not \<open>nil\<close>: it is the summary around the error of index 2. An image path is
  not empty whenever the generator's path for the record is not empty, and the default
  generator never gives the empty path.
\<close>

theorem continue_on_error_keeps_every_result:
  assumes "w1 = snd (SaveWallpaper d m0 0 w0)"
    and "w2 = snd (SaveWallpaper d m1 1 w1)"
    and "w3 = snd (SaveWallpaper d m2 2 w2)"
    and "w4 = snd (SaveWallpaper d m3 3 w3)"
    and "image_stages_succeed d m0 w0"
    and "image_stages_succeed d m1 w1"
    and "image_save_fails d m2 w2"
    and "image_stages_succeed d m3 w3"
    and "image_stages_succeed d m4 w4"
    and "SaveWallpapers d [m0, m1, m2, m3, m4] True w0 = ((results, err), w')"
  shows "length results = 5
    \<and> results =
        [fst (fst (SaveWallpaper d m0 0 w0)), fst (fst (SaveWallpaper d m1 1 w1)),
         fst (fst (SaveWallpaper d m2 2 w2)), fst (fst (SaveWallpaper d m3 3 w3)),
         fst (fst (SaveWallpaper d m4 4 w4))]
    \<and> w' = snd (SaveWallpaper d m4 4 w4)
    \<and> (\<exists>r e. results ! 2 = Some r \<and> ImageData r = m2 \<and> DownloadErr r = Some e
          \<and> ImagePath r = [] \<and> JsonPath r = []
          \<and> snd (fst (SaveWallpaper d m2 2 w2)) = Some (ImageSaveFailed e)
          \<and> err = Some (PartialFailure (WallpaperFailed 2 (ImageSaveFailed e))))
    \<and> (\<forall>i\<in>{0, 1, 3, 4}.
          \<exists>r. results ! i = Some r \<and> ImageData r = [m0, m1, m2, m3, m4] ! i
            \<and> DownloadErr r = None
            \<and> ImagePath r = GenerateImageFilename (Generator (ImageStorage d))
                              ([m0, m1, m2, m3, m4] ! i) (OutputDir (ImageStorage d))
            \<and> (GenerateImageFilename (Generator (ImageStorage d))
                  ([m0, m1, m2, m3, m4] ! i) (OutputDir (ImageStorage d)) \<noteq> []
                \<longrightarrow> ImagePath r \<noteq> [])
            \<and> (GenerateImageFilename (Generator (ImageStorage d))
                  = DefaultFilenameGenerator_GenerateImageFilename
                \<longrightarrow> ImagePath r \<noteq> []))
    \<and> err \<noteq> None"
proof -
  from SaveWallpapers_save_failure_at_2 [OF assms(1-9)]
  obtain j0 e0 j1 e1 e j3 e3 j4 e4 where
    run: "SaveWallpapers d [m0, m1, m2, m3, m4] True w0 =
        (([Some \<lparr>ImageData = m0,
                  ImagePath = GenerateImageFilename (Generator (ImageStorage d)) m0
                                (OutputDir (ImageStorage d)),
                  JsonPath = j0, DownloadErr = None, JsonErr = e0\<rparr>,
           Some \<lparr>ImageData = m1,
                  ImagePath = GenerateImageFilename (Generator (ImageStorage d)) m1
                                (OutputDir (ImageStorage d)),
                  JsonPath = j1, DownloadErr = None, JsonErr = e1\<rparr>,
           Some \<lparr>ImageData = m2, ImagePath = [], JsonPath = [],
                  DownloadErr = Some e, JsonErr = None\<rparr>,
           Some \<lparr>ImageData = m3,
                  ImagePath = GenerateImageFilename (Generator (ImageStorage d)) m3
                                (OutputDir (ImageStorage d)),
                  JsonPath = j3, DownloadErr = None, JsonErr = e3\<rparr>,
           Some \<lparr>ImageData = m4,
                  ImagePath = GenerateImageFilename (Generator (ImageStorage d)) m4
                                (OutputDir (ImageStorage d)),
                  JsonPath = j4, DownloadErr = None, JsonErr = e4\<rparr>],
          Some (PartialFailure (WallpaperFailed 2 (ImageSaveFailed e)))),
         snd (SaveWallpaper d m4 4 w4))"
    and run': "SaveWallpapers d [m0, m1, m2, m3, m4] True w0 =
        (([fst (fst (SaveWallpaper d m0 0 w0)), fst (fst (SaveWallpaper d m1 1 w1)),
           fst (fst (SaveWallpaper d m2 2 w2)), fst (fst (SaveWallpaper d m3 3 w3)),
           fst (fst (SaveWallpaper d m4 4 w4))],
          Some (PartialFailure (WallpaperFailed 2 (ImageSaveFailed e)))),
         snd (SaveWallpaper d m4 4 w4))"
    and e: "snd (fst (SaveWallpaper d m2 2 w2)) = Some (ImageSaveFailed e)"
    by blast
  from run assms(10) have
    rs: "results =
      [Some \<lparr>ImageData = m0,
              ImagePath = GenerateImageFilename (Generator (ImageStorage d)) m0
                            (OutputDir (ImageStorage d)),
              JsonPath = j0, DownloadErr = None, JsonErr = e0\<rparr>,
       Some \<lparr>ImageData = m1,
              ImagePath = GenerateImageFilename (Generator (ImageStorage d)) m1
                            (OutputDir (ImageStorage d)),
              JsonPath = j1, DownloadErr = None, JsonErr = e1\<rparr>,
       Some \<lparr>ImageData = m2, ImagePath = [], JsonPath = [],
              DownloadErr = Some e, JsonErr = None\<rparr>,
       Some \<lparr>ImageData = m3,
              ImagePath = GenerateImageFilename (Generator (ImageStorage d)) m3
                            (OutputDir (ImageStorage d)),
              JsonPath = j3, DownloadErr = None, JsonErr = e3\<rparr>,
       Some \<lparr>ImageData = m4,
              ImagePath = GenerateImageFilename (Generator (ImageStorage d)) m4
                            (OutputDir (ImageStorage d)),
              JsonPath = j4, DownloadErr = None, JsonErr = e4\<rparr>]"
    and err: "err = Some (PartialFailure (WallpaperFailed 2 (ImageSaveFailed e)))"
    by simp_all
  from run' assms(10) have
    each: "results =
      [fst (fst (SaveWallpaper d m0 0 w0)), fst (fst (SaveWallpaper d m1 1 w1)),
       fst (fst (SaveWallpaper d m2 2 w2)), fst (fst (SaveWallpaper d m3 3 w3)),
       fst (fst (SaveWallpaper d m4 4 w4))]"
    and w': "w' = snd (SaveWallpaper d m4 4 w4)"
    by simp_all
  have "length results = 5
    \<and> (\<exists>r e. results ! 2 = Some r \<and> ImageData r = m2 \<and> DownloadErr r = Some e
          \<and> ImagePath r = [] \<and> JsonPath r = []
          \<and> snd (fst (SaveWallpaper d m2 2 w2)) = Some (ImageSaveFailed e)
          \<and> err = Some (PartialFailure (WallpaperFailed 2 (ImageSaveFailed e))))
    \<and> (\<forall>i\<in>{0, 1, 3, 4}.
          \<exists>r. results ! i = Some r \<and> ImageData r = [m0, m1, m2, m3, m4] ! i
            \<and> DownloadErr r = None
            \<and> ImagePath r = GenerateImageFilename (Generator (ImageStorage d))
                              ([m0, m1, m2, m3, m4] ! i) (OutputDir (ImageStorage d))
            \<and> (GenerateImageFilename (Generator (ImageStorage d))
                  ([m0, m1, m2, m3, m4] ! i) (OutputDir (ImageStorage d)) \<noteq> []
                \<longrightarrow> ImagePath r \<noteq> [])
            \<and> (GenerateImageFilename (Generator (ImageStorage d))
                  = DefaultFilenameGenerator_GenerateImageFilename
                \<longrightarrow> ImagePath r \<noteq> []))
    \<and> err \<noteq> None"
    unfolding rs err using e
    by (simp add: DefaultFilenameGenerator_GenerateImageFilename_not_Nil)
  with each w' show ?thesis by blast
qed

theorem continue_on_error_keeps_every_result_witness:
  "(image_stages_succeed (ex_downloader True) (ex_image ''0'') ex4_w0
    \<and> image_stages_succeed (ex_downloader True) (ex_image ''1'') ex4_w1
    \<and> image_save_fails (ex_downloader True) (ex_image ''2'') ex4_w2
    \<and> image_stages_succeed (ex_downloader True) (ex_image ''3'') ex4_w3
    \<and> image_stages_succeed (ex_downloader True) (ex_image ''4'') ex4_w4)
   \<and> length (fst (fst (SaveWallpapers (ex_downloader True)
        [ex_image ''0'', ex_image ''1'', ex_image ''2'', ex_image ''3'', ex_image ''4'']
        True ex4_w0))) = 5
   \<and> (\<exists>r e. fst (fst (SaveWallpapers (ex_downloader True)
        [ex_image ''0'', ex_image ''1'', ex_image ''2'', ex_image ''3'', ex_image ''4'']
        True ex4_w0)) ! 2 = Some r
        \<and> DownloadErr r = Some e \<and> ImagePath r = [])
   \<and> (\<exists>r. fst (fst (SaveWallpapers (ex_downloader True)
        [ex_image ''0'', ex_image ''1'', ex_image ''2'', ex_image ''3'', ex_image ''4'']
        True ex4_w0)) ! 0 = Some r
        \<and> DownloadErr r = None \<and> ImagePath r \<noteq> [])
   \<and> (\<exists>r. fst (fst (SaveWallpapers (ex_downloader True)
        [ex_image ''0'', ex_image ''1'', ex_image ''2'', ex_image ''3'', ex_image ''4'']
        True ex4_w0)) ! 4 = Some r
        \<and> DownloadErr r = None \<and> ImagePath r \<noteq> [])
   \<and> snd (fst (SaveWallpapers (ex_downloader True)
        [ex_image ''0'', ex_image ''1'', ex_image ''2'', ex_image ''3'', ex_image ''4'']
        True ex4_w0)) \<noteq> None"
proof -
  let ?d = "ex_downloader True"
  let ?run = "SaveWallpapers ?d
      [ex_image ''0'', ex_image ''1'', ex_image ''2'', ex_image ''3'', ex_image ''4'']
      True ex4_w0"
  have s0: "image_stages_succeed ?d (ex_image ''0'') ex4_w0"
    by code_simp
  have s1: "image_stages_succeed ?d (ex_image ''1'') ex4_w1"
    by code_simp
  have f2: "image_save_fails ?d (ex_image ''2'') ex4_w2"
    by code_simp
  have s3: "image_stages_succeed ?d (ex_image ''3'') ex4_w3"
    by code_simp
  have s4: "image_stages_succeed ?d (ex_image ''4'') ex4_w4"
    by code_simp
  have g: "GenerateImageFilename (Generator (ImageStorage ?d))
      = DefaultFilenameGenerator_GenerateImageFilename"
    by (simp add: ex_downloader_def NewDownloader_def NewBingImageStorage_def
        NewDefaultFilenameGenerator_def)
  have run: "?run = ((fst (fst ?run), snd (fst ?run)), snd ?run)"
    by simp
  from continue_on_error_keeps_every_result
    [OF ex4_w1_def ex4_w2_def ex4_w3_def ex4_w4_def s0 s1 f2 s3 s4 run] g
  have "length (fst (fst ?run)) = 5"
    and "\<exists>r e. fst (fst ?run) ! 2 = Some r \<and> DownloadErr r = Some e \<and> ImagePath r = []"
    and "\<exists>r. fst (fst ?run) ! 0 = Some r \<and> DownloadErr r = None \<and> ImagePath r \<noteq> []"
    and "\<exists>r. fst (fst ?run) ! 4 = Some r \<and> DownloadErr r = None \<and> ImagePath r \<noteq> []"
    and "snd (fst ?run) \<noteq> None"
    by auto
  with s0 s1 f2 s3 s4 show ?thesis by blast
qed

text \<open>
  In the fifth scenario only the image save of the record at index 2 fails, and the
  results of the other records have no download error and an empty image path.
\<close>

theorem continue_on_error_empty_ImagePath_counterexample:
  "image_stages_succeed ex5_d (ex_image ''0'') ex5_w0
   \<and> image_stages_succeed ex5_d (ex_image ''1'') ex5_w1
   \<and> image_save_fails ex5_d (ex_image ''2'') ex5_w2
   \<and> image_stages_succeed ex5_d (ex_image ''3'') ex5_w3
   \<and> image_stages_succeed ex5_d (ex_image ''4'') ex5_w4
   \<and> fst (SaveWallpapers ex5_d
        [ex_image ''0'', ex_image ''1'', ex_image ''2'', ex_image ''3'', ex_image ''4'']
        True ex5_w0)
      = ([Some \<lparr>ImageData = ex_image ''0'', ImagePath = [], JsonPath = [],
                 DownloadErr = None, JsonErr = None\<rparr>,
          Some \<lparr>ImageData = ex_image ''1'', ImagePath = [], JsonPath = [],
                 DownloadErr = None, JsonErr = None\<rparr>,
          Some \<lparr>ImageData = ex_image ''2'', ImagePath = [], JsonPath = [],
                 DownloadErr = Some (Opaque ''rejected''), JsonErr = None\<rparr>,
          Some \<lparr>ImageData = ex_image ''3'', ImagePath = [], JsonPath = [],
                 DownloadErr = None, JsonErr = None\<rparr>,
          Some \<lparr>ImageData = ex_image ''4'', ImagePath = [], JsonPath = [],
                 DownloadErr = None, JsonErr = None\<rparr>],
         Some (PartialFailure (WallpaperFailed 2 (ImageSaveFailed (Opaque ''rejected'')))))"
  by code_simp

lemma FetchAndSaveWallpapers_loop_metadata_failed:
  assumes "i < days" and "FetchImageData (Client d) i w = (Inl e, w1)"
  shows "FetchAndSaveWallpapers_loop d days True i results lastError w
           = FetchAndSaveWallpapers_loop d days True (i + 1) results
               (Some (DayFailed i (FetchImageDataFailed e))) w1"
    and "length (fst (fst (FetchAndSaveWallpapers_loop d days True i results lastError w)))
           < length results + nat (days - i)"
    and "snd (fst (FetchAndSaveWallpapers_loop d days True i results lastError w)) \<noteq> None"
proof -
  let ?next = "FetchAndSaveWallpapers_loop d days True (i + 1) results
      (Some (DayFailed i (FetchImageDataFailed e))) w1"
  from FetchAndSaveWallpapers_loop_continue
    [OF assms(1) FetchAndSaveWallpaper_metadata_failed [OF assms(2)], of results lastError]
  show step: "FetchAndSaveWallpapers_loop d days True i results lastError w = ?next"
    by simp
  have "length (fst (fst ?next)) \<le> length results + nat (days - (i + 1))"
    by (rule FetchAndSaveWallpapers_loop_length)
  with assms(1) show "length (fst (fst (FetchAndSaveWallpapers_loop d days True i results
      lastError w))) < length results + nat (days - i)"
    unfolding step by linarith
  show "snd (fst (FetchAndSaveWallpapers_loop d days True i results lastError w)) \<noteq> None"
    unfolding step by (rule FetchAndSaveWallpapers_loop_error) simp
qed

text \<open>
  C9. With \<open>continueOnError = true\<close>, a day whose metadata fetch fails gives a \<open>nil\<close>
  result, and the loop of \<open>FetchAndSaveWallpapers\<close> goes on to the next day with its list
  of results as it was. So the list it ends with has fewer entries than it had before
  that day plus the days that were left, and the error it returns is not \<open>nil\<close>. When the
  failing day is the first one, this is the list \<open>FetchAndSaveWallpapers\<close> returns: it has
  fewer entries than days.
\<close>

theorem metadata_failure_adds_no_result:
  assumes "i < days" and "FetchImageData (Client d) i w = (Inl e, w1)"
  shows "FetchAndSaveWallpaper d i w = ((None, Some (FetchImageDataFailed e)), w1)
    \<and> FetchAndSaveWallpapers_loop d days True i results lastError w
        = FetchAndSaveWallpapers_loop d days True (i + 1) results
            (Some (DayFailed i (FetchImageDataFailed e))) w1
    \<and> length (fst (fst (FetchAndSaveWallpapers_loop d days True i results lastError w)))
        < length results + nat (days - i)
    \<and> snd (fst (FetchAndSaveWallpapers_loop d days True i results lastError w)) \<noteq> None
    \<and> (i = 0 \<longrightarrow>
         (\<exists>rs err w'. FetchAndSaveWallpapers d days True w = Inr ((rs, err), w')
            \<and> length rs < nat days \<and> err \<noteq> None))"
proof -
  have "\<exists>rs err w'. FetchAndSaveWallpapers d days True w = Inr ((rs, err), w')
      \<and> length rs < nat days \<and> err \<noteq> None" if "i = 0"
  proof -
    let ?run = "FetchAndSaveWallpapers_loop d days True 0 [] None w"
    from that assms have "0 < days" and f: "FetchImageData (Client d) 0 w = (Inl e, w1)"
      by simp_all
    from FetchAndSaveWallpapers_loop_metadata_failed(2,3) [OF this, of "[]" None]
    have "length (fst (fst ?run)) < nat days" and "snd (fst ?run) \<noteq> None"
      by simp_all
    moreover from \<open>0 < days\<close>
    have "FetchAndSaveWallpapers d days True w = Inr ((fst (fst ?run), snd (fst ?run)), snd ?run)"
      by (simp add: FetchAndSaveWallpapers_def)
    ultimately show ?thesis by blast
  qed
  with FetchAndSaveWallpapers_loop_metadata_failed [OF assms, of results lastError]
    FetchAndSaveWallpaper_metadata_failed [OF assms(2)]
  show ?thesis by blast
qed

theorem metadata_failure_adds_no_result_witness:
  "(0::int) < 2
   \<and> fst (FetchImageData (Client (ex_downloader False)) 0 ex2_w0)
       = Inl (RequestFailed (Opaque ''timeout''))
   \<and> fst (FetchAndSaveWallpaper (ex_downloader False) 0 ex2_w0)
       = (None, Some (FetchImageDataFailed (RequestFailed (Opaque ''timeout''))))
   \<and> map_sum id fst (FetchAndSaveWallpapers (ex_downloader False) 2 True ex2_w0)
       = Inr ([Some \<lparr>ImageData = ex_image ''1'', ImagePath = ''/out/20240111_Day_1.jpg'',
                      JsonPath = [], DownloadErr = None, JsonErr = None\<rparr>],
              Some (PartialFailure (DayFailed 0
                      (FetchImageDataFailed (RequestFailed (Opaque ''timeout''))))))
   \<and> length (fst (fst (FetchAndSaveWallpapers_loop (ex_downloader False) 2 True 0 [] None
        ex2_w0))) < 2
   \<and> (\<exists>rs err w'. FetchAndSaveWallpapers (ex_downloader False) 2 True ex2_w0
          = Inr ((rs, err), w') \<and> length rs < 2 \<and> err \<noteq> None)"
proof -
  let ?d = "ex_downloader False"
  have d: "(0::int) < 2"
    by simp
  have f: "fst (FetchImageData (Client ?d) 0 ex2_w0) = Inl (RequestFailed (Opaque ''timeout''))"
    by code_simp
  have r: "map_sum id fst (FetchAndSaveWallpapers ?d 2 True ex2_w0)
      = Inr ([Some \<lparr>ImageData = ex_image ''1'', ImagePath = ''/out/20240111_Day_1.jpg'',
                      JsonPath = [], DownloadErr = None, JsonErr = None\<rparr>],
             Some (PartialFailure (DayFailed 0
                     (FetchImageDataFailed (RequestFailed (Opaque ''timeout''))))))"
    by code_simp
  note t = metadata_failure_adds_no_result [OF d pair_fst_snd [OF f], of "[]" None]
  from t [THEN conjunct1]
  have a: "fst (FetchAndSaveWallpaper ?d 0 ex2_w0)
      = (None, Some (FetchImageDataFailed (RequestFailed (Opaque ''timeout''))))"
    by simp
  from t [THEN conjunct2, THEN conjunct2, THEN conjunct1]
  have b: "length (fst (fst (FetchAndSaveWallpapers_loop ?d 2 True 0 [] None ex2_w0))) < 2"
    by simp
  from t [THEN conjunct2, THEN conjunct2, THEN conjunct2, THEN conjunct2]
  have c: "\<exists>rs err w'. FetchAndSaveWallpapers ?d 2 True ex2_w0 = Inr ((rs, err), w')
      \<and> length rs < 2 \<and> err \<noteq> None"
    by simp
  from a b c d f r show ?thesis by blast
qed

end
